theory Spec2Isabelle
  imports Main "HOL-Library.Product_Lexorder"
begin

section \<open>MigratorXpress MCP server: parameters, command builder, version resolution\<close>

text \<open>
  A shallow embedding of \<^verbatim>\<open>src/validators.py\<close>, \<^verbatim>\<open>src/migratorxpress.py\<close>,
  \<^verbatim>\<open>src/version.py\<close> and the two tool handlers of \<^verbatim>\<open>src/server.py\<close> that the
  properties below talk about. Python strings are \<open>string\<close> (byte lists), Python's
  unbounded \<open>int\<close> is \<open>int\<close>, \<open>Optional[T]\<close> is \<open>T option\<close>, a raised exception is
  the left injection of a sum. Python floats are kept abstract: the type parameter
  \<open>'f\<close> stands for them and \<open>str\<close> on a float is a parameter of the builder.
\<close>

subsection \<open>Enumerations of \<^verbatim>\<open>validators.py\<close>\<close>

datatype TaskType = TRANSLATE | CREATE | TRANSFER | DIFF | COPY_PK | COPY_AK | COPY_FK | ALL_TASKS

fun TaskType_value :: "TaskType \<Rightarrow> string" where
  "TaskType_value TRANSLATE = ''translate''"
| "TaskType_value CREATE = ''create''"
| "TaskType_value TRANSFER = ''transfer''"
| "TaskType_value DIFF = ''diff''"
| "TaskType_value COPY_PK = ''copy_pk''"
| "TaskType_value COPY_AK = ''copy_ak''"
| "TaskType_value COPY_FK = ''copy_fk''"
| "TaskType_value ALL_TASKS = ''all''"

text \<open>The members of \<^verbatim>\<open>TaskType\<close> in definition order (what iterating the enum yields).\<close>

definition TaskType_members :: "TaskType list" where
  "TaskType_members = [TRANSLATE, CREATE, TRANSFER, DIFF, COPY_PK, COPY_AK, COPY_FK, ALL_TASKS]"

datatype MigrationDbMode = PRESERVE | TRUNCATE | DROP

fun MigrationDbMode_value :: "MigrationDbMode \<Rightarrow> string" where
  "MigrationDbMode_value PRESERVE = ''preserve''"
| "MigrationDbMode_value TRUNCATE = ''truncate''"
| "MigrationDbMode_value DROP = ''drop''"

datatype LoadMode = LOAD_TRUNCATE | LOAD_APPEND

fun LoadMode_value :: "LoadMode \<Rightarrow> string" where
  "LoadMode_value LOAD_TRUNCATE = ''truncate''"
| "LoadMode_value LOAD_APPEND = ''append''"

datatype FkMode = TRUSTED | UNTRUSTED | DISABLED

fun FkMode_value :: "FkMode \<Rightarrow> string" where
  "FkMode_value TRUSTED = ''trusted''"
| "FkMode_value UNTRUSTED = ''untrusted''"
| "FkMode_value DISABLED = ''disabled''"

datatype LogLevel = DEBUG | INFO | WARNING | ERROR | CRITICAL

fun LogLevel_value :: "LogLevel \<Rightarrow> string" where
  "LogLevel_value DEBUG = ''DEBUG''"
| "LogLevel_value INFO = ''INFO''"
| "LogLevel_value WARNING = ''WARNING''"
| "LogLevel_value ERROR = ''ERROR''"
| "LogLevel_value CRITICAL = ''CRITICAL''"

subsection \<open>The parameter model \<^verbatim>\<open>MigrationParams\<close>\<close>

record 'f MigrationParams =
  auth_file :: string
  source_db_auth_id :: string
  source_db_name :: string
  target_db_auth_id :: string
  target_db_name :: string
  migration_db_auth_id :: string
  source_schema_name :: "string option"
  target_schema_name :: "string option"
  task_list :: "string list option"
  resume :: "string option"
  fasttransfer_dir_path :: "string option"
  fasttransfer_p :: "int option"
  ft_large_table_th :: "int option"
  n_jobs :: "int option"
  cci_threshold :: "int option"
  aci_threshold :: "int option"
  migration_db_mode :: "MigrationDbMode option"
  compute_nbrows :: "string option"
  drop_tables_if_exists :: "string option"
  load_mode :: "LoadMode option"
  include_tables :: "string option"
  exclude_tables :: "string option"
  min_rows :: "int option"
  max_rows :: "int option"
  forced_int_id_prefixes :: "string list option"
  forced_int_id_suffixes :: "string list option"
  profiling_sample_pc :: "'f option"
  p_query :: "'f option"
  min_sample_pc_profile :: "'f option"
  force :: bool
  basic_diff :: bool
  without_xid :: bool
  fk_mode :: "FkMode option"
  log_level :: "LogLevel option"
  log_dir :: "string option"
  no_banner :: bool
  no_progress :: bool
  quiet_ft :: bool
  license :: "string option"
  license_file :: "string option"

text \<open>
  \<^verbatim>\<open>MigrationParams(auth_file=.., source_db_auth_id=.., ...)\<close> with the six required
  fields only: every other field takes its \<^verbatim>\<open>Field\<close> default, \<^verbatim>\<open>None\<close> or \<^verbatim>\<open>False\<close>.
\<close>

definition required_only ::
  "string \<Rightarrow> string \<Rightarrow> string \<Rightarrow> string \<Rightarrow> string \<Rightarrow> string \<Rightarrow> 'f MigrationParams" where
  "required_only af sid sname tid tname mid =
     \<lparr> auth_file = af, source_db_auth_id = sid, source_db_name = sname,
       target_db_auth_id = tid, target_db_name = tname, migration_db_auth_id = mid,
       source_schema_name = None, target_schema_name = None,
       task_list = None, resume = None,
       fasttransfer_dir_path = None, fasttransfer_p = None, ft_large_table_th = None,
       n_jobs = None, cci_threshold = None, aci_threshold = None,
       migration_db_mode = None,
       compute_nbrows = None, drop_tables_if_exists = None,
       load_mode = None,
       include_tables = None, exclude_tables = None, min_rows = None, max_rows = None,
       forced_int_id_prefixes = None, forced_int_id_suffixes = None,
       profiling_sample_pc = None, p_query = None, min_sample_pc_profile = None,
       force = False, basic_diff = False, without_xid = False,
       fk_mode = None,
       log_level = None, log_dir = None,
       no_banner = False, no_progress = False, quiet_ft = False,
       license = None, license_file = None \<rparr>"

subsection \<open>The model validators\<close>

datatype error =
    ValueError string
  | MigratorXpressError string
  | ValidationError "(string list \<times> string) list"
  | IndexError
  | AttributeError

text \<open>\<^verbatim>\<open>{t.value for t in TaskType}\<close>, and its \<^verbatim>\<open>sorted(...)\<close> rendering in the message.\<close>

definition valid_tasks :: "string list" where
  "valid_tasks = map TaskType_value TaskType_members"

definition sorted_valid_tasks_repr :: string where
  "sorted_valid_tasks_repr =
     ''['' @ CHR 0x27 # ''all'' @ CHR 0x27 # '', '' @ CHR 0x27 # ''copy_ak'' @ CHR 0x27 # '', ''
        @ CHR 0x27 # ''copy_fk'' @ CHR 0x27 # '', '' @ CHR 0x27 # ''copy_pk'' @ CHR 0x27 # '', ''
        @ CHR 0x27 # ''create'' @ CHR 0x27 # '', '' @ CHR 0x27 # ''diff'' @ CHR 0x27 # '', ''
        @ CHR 0x27 # ''transfer'' @ CHR 0x27 # '', '' @ CHR 0x27 # ''translate'' @ CHR 0x27 # '']''"

text \<open>
  \<^verbatim>\<open>validate_task_list_values\<close>: the loop raises at the first task outside the enum;
  after the loop, \<^verbatim>\<open>"all" in task_list and len(task_list) > 1\<close> raises.
\<close>

definition validate_task_list_values :: "'f MigrationParams \<Rightarrow> error + 'f MigrationParams" where
  "validate_task_list_values p =
     (case task_list p of
        None \<Rightarrow> Inr p
      | Some ts \<Rightarrow>
          (case find (\<lambda>task. task \<notin> set valid_tasks) ts of
             Some task \<Rightarrow>
               Inl (ValueError (''Invalid task '' @ CHR 0x27 # task @ CHR 0x27 # ''. Valid tasks: ''
                                 @ sorted_valid_tasks_repr))
           | None \<Rightarrow>
               if ''all'' \<in> set ts \<and> length ts > 1
               then Inl (ValueError ''Task 'all' cannot be combined with other tasks.'')
               else Inr p))"

text \<open>
  \<^verbatim>\<open>validate_string_booleans\<close>: the two fields are looked at in the order of the tuple
  \<^verbatim>\<open>("compute_nbrows", "drop_tables_if_exists")\<close>.
\<close>

definition string_boolean_check :: "string \<Rightarrow> string option \<Rightarrow> error option" where
  "string_boolean_check field_name v =
     (case v of
        None \<Rightarrow> None
      | Some s \<Rightarrow>
          if s \<noteq> ''true'' \<and> s \<noteq> ''false''
          then Some (ValueError (CHR 0x27 # field_name @ CHR 0x27 # '' must be 'true' or 'false', got ''
                                  @ CHR 0x27 # s @ [CHR 0x27]))
          else None)"

definition validate_string_booleans :: "'f MigrationParams \<Rightarrow> error + 'f MigrationParams" where
  "validate_string_booleans p =
     (case string_boolean_check ''compute_nbrows'' (compute_nbrows p) of
        Some e \<Rightarrow> Inl e
      | None \<Rightarrow>
          (case string_boolean_check ''drop_tables_if_exists'' (drop_tables_if_exists p) of
             Some e \<Rightarrow> Inl e
           | None \<Rightarrow> Inr p))"

definition validate_license_mutual_exclusivity :: "'f MigrationParams \<Rightarrow> error + 'f MigrationParams" where
  "validate_license_mutual_exclusivity p =
     (if license p \<noteq> None \<and> license_file p \<noteq> None
      then Inl (ValueError (''license and license_file are mutually exclusive. ''
                             @ ''Provide one or the other, not both.''))
      else Inr p)"

text \<open>
  The three \<^verbatim>\<open>@model_validator(mode="after")\<close> functions run in definition order on the
  model whose fields already have their declared types; the first one that raises ends
  validation.
\<close>

definition validate :: "'f MigrationParams \<Rightarrow> error + 'f MigrationParams" where
  "validate p =
     (case validate_task_list_values p of
        Inl e \<Rightarrow> Inl e
      | Inr p1 \<Rightarrow>
          (case validate_string_booleans p1 of
             Inl e \<Rightarrow> Inl e
           | Inr p2 \<Rightarrow> validate_license_mutual_exclusivity p2))"

subsection \<open>Rendering integers\<close>

text \<open>\<^verbatim>\<open>str(n)\<close> for a Python \<^verbatim>\<open>int\<close>: base ten, a leading minus sign for negatives.\<close>

fun str_nat :: "nat \<Rightarrow> string" where
  "str_nat n = (if n < 10 then [''0123456789'' ! n]
                else str_nat (n div 10) @ [''0123456789'' ! (n mod 10)])"

declare str_nat.simps [simp del]

definition str_int :: "int \<Rightarrow> string" where
  "str_int i = (if i < 0 then CHR ''-'' # str_nat (nat (- i)) else str_nat (nat i))"

text \<open>Two lower-case hexadecimal digits of a byte, as in \<^verbatim>\<open>\xff\<close> and \<^verbatim>\<open>0xff\<close>.\<close>

definition hex2 :: "nat \<Rightarrow> string" where
  "hex2 n = [''0123456789abcdef'' ! (n div 16 mod 16), ''0123456789abcdef'' ! (n mod 16)]"

text \<open>
  \<^verbatim>\<open>repr\<close> of a string: in single quotes, or in double quotes when the string has a single
  quote and no double quote; the quote character and the backslash are escaped, tab, line
  feed and carriage return are written \<^verbatim>\<open>\t\<close>, \<^verbatim>\<open>\n\<close>, \<^verbatim>\<open>\r\<close>, the other control characters
  \<^verbatim>\<open>\xNN\<close>. Bytes above \<open>0x7f\<close> are left as they are (Python escapes the code points that
  are not printable).
\<close>

definition repr_char :: "char \<Rightarrow> char \<Rightarrow> string" where
  "repr_char quote c =
     (if c = quote \<or> c = CHR 0x5C then [CHR 0x5C, c]
      else if c = CHR 0x09 then [CHR 0x5C, CHR ''t'']
      else if c = CHR 0x0A then [CHR 0x5C, CHR ''n'']
      else if c = CHR 0x0D then [CHR 0x5C, CHR ''r'']
      else if (of_char c :: nat) < 32 \<or> (of_char c :: nat) = 127
      then [CHR 0x5C, CHR ''x''] @ hex2 (of_char c)
      else [c])"

definition py_repr :: "string \<Rightarrow> string" where
  "py_repr s =
     (let quote = (if CHR 0x27 \<in> set s \<and> CHR 0x22 \<notin> set s then CHR 0x22 else CHR 0x27)
      in [quote] @ concat (map (repr_char quote) s) @ [quote])"

subsection \<open>Versions and the capability registry (\<^verbatim>\<open>version.py\<close>)\<close>

record MigratorXpressVersion =
  major :: int
  minor :: int
  patch :: int

text \<open>
  The property \<^verbatim>\<open>_tuple\<close>, and the comparisons: \<^verbatim>\<open>__eq__\<close> and \<^verbatim>\<open>__lt__\<close> compare the
  tuples (lexicographically), \<^verbatim>\<open>functools.total_ordering\<close> derives \<^verbatim>\<open>a <= b\<close> as
  \<^verbatim>\<open>a < b or a == b\<close>.
\<close>

definition version_tuple :: "MigratorXpressVersion \<Rightarrow> int \<times> int \<times> int" where
  "version_tuple v = (major v, minor v, patch v)"

definition version_eq :: "MigratorXpressVersion \<Rightarrow> MigratorXpressVersion \<Rightarrow> bool" where
  "version_eq a b \<longleftrightarrow> version_tuple a = version_tuple b"

definition version_lt :: "MigratorXpressVersion \<Rightarrow> MigratorXpressVersion \<Rightarrow> bool" where
  "version_lt a b \<longleftrightarrow> version_tuple a < version_tuple b"

definition version_le :: "MigratorXpressVersion \<Rightarrow> MigratorXpressVersion \<Rightarrow> bool" where
  "version_le a b \<longleftrightarrow> version_lt a b \<or> version_eq a b"

definition version_str :: "MigratorXpressVersion \<Rightarrow> string" where
  "version_str v = str_int (major v) @ ''.'' @ str_int (minor v) @ ''.'' @ str_int (patch v)"

text \<open>
  The two regular expressions, on byte strings: \<open>\d\<close> is an ASCII digit and \<open>\s\<close> the ASCII
  whitespace of Python's \<^verbatim>\<open>str\<close> (the digits and spaces of other scripts, which Python's
  patterns also match, are not). \<open>digits1\<close> is \<open>\d+\<close> (the longest digit run, at least
  one digit) with the rest of the input, \<open>dot\<close> is \<open>\.\<close>, and \<open>match_triple\<close> matches
  \<^verbatim>\<open>(\d+)\.(\d+)\.(\d+)\<close> at the start of its argument: a digit run can only be followed by
  the dot when it is maximal, so backtracking never finds another match. \<open>search_triple\<close> is \<^verbatim>\<open>re.search\<close>, the leftmost
  start position that matches.
\<close>

definition is_digit :: "char \<Rightarrow> bool" where
  "is_digit c \<longleftrightarrow> c \<in> set ''0123456789''"

definition is_space :: "char \<Rightarrow> bool" where
  "is_space c \<longleftrightarrow>
     c \<in> set [CHR '' '', CHR 0x09, CHR 0x0A, CHR 0x0B, CHR 0x0C, CHR 0x0D,
              CHR 0x1C, CHR 0x1D, CHR 0x1E, CHR 0x1F]"

definition int_of_digits :: "string \<Rightarrow> int" where
  "int_of_digits ds = foldl (\<lambda>a c. 10 * a + (of_char c - 48)) 0 ds"

definition digits1 :: "string \<Rightarrow> (string \<times> string) option" where
  "digits1 s =
     (if takeWhile is_digit s = [] then None
      else Some (takeWhile is_digit s, dropWhile is_digit s))"

definition dot :: "string \<Rightarrow> string option" where
  "dot s = (case s of [] \<Rightarrow> None | c # r \<Rightarrow> if c = CHR ''.'' then Some r else None)"

definition match_triple :: "string \<Rightarrow> (string \<times> string \<times> string) option" where
  "match_triple s =
     (case digits1 s of
        None \<Rightarrow> None
      | Some (a, r1) \<Rightarrow>
     (case dot r1 of
        None \<Rightarrow> None
      | Some r2 \<Rightarrow>
     (case digits1 r2 of
        None \<Rightarrow> None
      | Some (b, r3) \<Rightarrow>
     (case dot r3 of
        None \<Rightarrow> None
      | Some r4 \<Rightarrow>
     (case digits1 r4 of
        None \<Rightarrow> None
      | Some (c, r5) \<Rightarrow> Some (a, b, c))))))"

fun search_triple :: "string \<Rightarrow> (string \<times> string \<times> string) option" where
  "search_triple [] = None"
| "search_triple (c # cs) =
     (case match_triple (c # cs) of
        Some g \<Rightarrow> Some g
      | None \<Rightarrow> search_triple cs)"

definition strip :: "string \<Rightarrow> string" where
  "strip s = rev (dropWhile is_space (rev (dropWhile is_space s)))"

text \<open>\<^verbatim>\<open>MigratorXpressVersion.parse\<close>.\<close>

definition parse :: "string \<Rightarrow> error + MigratorXpressVersion" where
  "parse version_string =
     (case search_triple (strip version_string) of
        None \<Rightarrow> Inl (ValueError (''Cannot parse version from: '' @ py_repr version_string))
      | Some (a, b, c) \<Rightarrow>
          Inr \<lparr> major = int_of_digits a, minor = int_of_digits b, patch = int_of_digits c \<rparr>)"

record VersionCapabilities =
  source_databases :: "string set"
  target_databases :: "string set"
  migration_db_types :: "string set"
  tasks :: "string set"
  fk_modes :: "string set"
  migration_db_modes :: "string set"
  load_modes :: "string set"
  supports_no_banner :: bool
  supports_version_flag :: bool
  supports_fasttransfer :: bool
  supports_license :: bool

text \<open>\<^verbatim>\<open>VERSION_REGISTRY\<close>: the items of the dictionary, in insertion order.\<close>

definition VERSION_REGISTRY :: "(string \<times> VersionCapabilities) list" where
  "VERSION_REGISTRY =
     [(''0.6.24'',
       \<lparr> source_databases = {''oracle'', ''postgresql'', ''sqlserver'', ''netezza''},
         target_databases = {''postgresql'', ''sqlserver''},
         migration_db_types = {''sqlserver''},
         tasks = {''translate'', ''create'', ''transfer'', ''diff'',
                  ''copy_pk'', ''copy_ak'', ''copy_fk'', ''all''},
         fk_modes = {''trusted'', ''untrusted'', ''disabled''},
         migration_db_modes = {''preserve'', ''truncate'', ''drop''},
         load_modes = {''truncate'', ''append''},
         supports_no_banner = True,
         supports_version_flag = True,
         supports_fasttransfer = True,
         supports_license = True \<rparr>)]"

text \<open>
  \<^verbatim>\<open>_SORTED_VERSIONS\<close>: every key is parsed (a key that does not parse raises when the module
  is loaded), then \<^verbatim>\<open>sorted(..., key=lambda x: x[0])\<close>, a stable sort by \<^verbatim>\<open>__lt__\<close> on the
  versions.
\<close>

fun parse_items ::
  "(string \<times> VersionCapabilities) list \<Rightarrow> error + (MigratorXpressVersion \<times> VersionCapabilities) list" where
  "parse_items [] = Inr []"
| "parse_items ((k, v) # kvs) =
     (case parse k of
        Inl e \<Rightarrow> Inl e
      | Inr ver \<Rightarrow>
          (case parse_items kvs of
             Inl e \<Rightarrow> Inl e
           | Inr rest \<Rightarrow> Inr ((ver, v) # rest)))"

definition sorted_versions ::
  "(string \<times> VersionCapabilities) list \<Rightarrow> error + (MigratorXpressVersion \<times> VersionCapabilities) list" where
  "sorted_versions registry =
     (case parse_items registry of
        Inl e \<Rightarrow> Inl e
      | Inr items \<Rightarrow> Inr (sort_key (\<lambda>x. version_tuple (fst x)) items))"

text \<open>
  What the operating system does with a process started by
  \<^verbatim>\<open>subprocess.run(..., capture_output=True, text=True, timeout=t, check=False)\<close> is the
  environment's answer: the process exits with a return code and the bytes it wrote to its two
  output streams, or it runs past the timeout, or starting it fails.
\<close>

datatype run_outcome =
    Completed int string string
  | TimeoutExpired
  | FileNotFoundError string
  | OtherException string

text \<open>
  With \<^verbatim>\<open>text=True\<close> the captured bytes are decoded with the locale's encoding and
  universal newlines before \<^verbatim>\<open>subprocess.run\<close> returns, standard output first; bytes
  that do not decode raise \<^verbatim>\<open>UnicodeDecodeError\<close> out of \<^verbatim>\<open>subprocess.run\<close> although
  the process has exited normally. The decoder is a parameter \<open>decode\<close> of everything that
  runs a process: \<open>Inr\<close> the text, or \<open>Inl\<close> the \<^verbatim>\<open>str\<close> of the exception.
  \<open>run_text\<close> is what \<^verbatim>\<open>subprocess.run\<close> hands to its caller after a normal exit.
\<close>

datatype run_result =
    CompletedProcess int string string
  | DecodeError string

definition run_text :: "(string \<Rightarrow> string + string) \<Rightarrow> int \<Rightarrow> string \<Rightarrow> string \<Rightarrow> run_result" where
  "run_text decode returncode out_bytes err_bytes =
     (case decode out_bytes of
        Inl m \<Rightarrow> DecodeError m
      | Inr stdout \<Rightarrow>
          (case decode err_bytes of
             Inl m \<Rightarrow> DecodeError m
           | Inr stderr \<Rightarrow> CompletedProcess returncode stdout stderr))"

text \<open>
  The decoder of a process whose locale encoding is ASCII, for the concrete examples: the
  first byte above \<open>0x7f\<close> raises with the message of the \<^verbatim>\<open>ascii\<close> codec, otherwise
  \<^verbatim>\<open>\r\n\<close> and \<^verbatim>\<open>\r\<close> become \<^verbatim>\<open>\n\<close>.
\<close>

fun first_non_ascii :: "nat \<Rightarrow> string \<Rightarrow> (nat \<times> char) option" where
  "first_non_ascii i [] = None"
| "first_non_ascii i (c # cs) =
     (if (of_char c :: nat) \<ge> 128 then Some (i, c) else first_non_ascii (Suc i) cs)"

fun universal_newlines :: "string \<Rightarrow> string" where
  "universal_newlines (c # d # r) =
     (if c = CHR 0x0D \<and> d = CHR 0x0A then CHR 0x0A # universal_newlines r
      else if c = CHR 0x0D then CHR 0x0A # universal_newlines (d # r)
      else c # universal_newlines (d # r))"
| "universal_newlines [c] = (if c = CHR 0x0D then [CHR 0x0A] else [c])"
| "universal_newlines [] = []"

definition ascii_text :: "string \<Rightarrow> string + string" where
  "ascii_text bytes =
     (case first_non_ascii 0 bytes of
        Some (i, c) \<Rightarrow>
          Inl ([CHR 0x27] @ ''ascii'' @ [CHR 0x27] @ '' codec can'' @ [CHR 0x27]
               @ ''t decode byte 0x'' @ hex2 (of_char c) @ '' in position '' @ str_nat i
               @ '': ordinal not in range(128)'')
      | None \<Rightarrow> Inr (universal_newlines bytes))"

record VersionDetector =
  detector_binary_path :: string
  detected_version :: "MigratorXpressVersion option"
  detection_done :: bool

definition VersionDetector_init :: "string \<Rightarrow> VersionDetector" where
  "VersionDetector_init path =
     \<lparr> detector_binary_path = path, detected_version = None, detection_done = False \<rparr>"

text \<open>
  \<^verbatim>\<open>re.search(r"migratorxpress\s+(\d+)\.(\d+)\.(\d+)", output, re.IGNORECASE)\<close>, ASCII case
  folding.
\<close>

definition to_lower :: "char \<Rightarrow> char" where
  "to_lower c =
     (case map_of (zip ''ABCDEFGHIJKLMNOPQRSTUVWXYZ'' ''abcdefghijklmnopqrstuvwxyz'') c of
        Some l \<Rightarrow> l
      | None \<Rightarrow> c)"

definition match_product :: "string \<Rightarrow> (string \<times> string \<times> string) option" where
  "match_product s =
     (if map to_lower (take 14 s) = ''migratorxpress''
      then let r = drop 14 s in
           if takeWhile is_space r = [] then None else match_triple (dropWhile is_space r)
      else None)"

fun search_product :: "string \<Rightarrow> (string \<times> string \<times> string) option" where
  "search_product [] = None"
| "search_product (c # cs) =
     (case match_product (c # cs) of
        Some g \<Rightarrow> Some g
      | None \<Rightarrow> search_product cs)"

text \<open>
  \<^verbatim>\<open>VersionDetector.detect\<close>. \<open>outcome\<close> is what running
  \<^verbatim>\<open>[binary, "--version", "--no_banner"]\<close> gives; it is looked at only when the binary is run,
  that is on the first call. All three \<^verbatim>\<open>except\<close> branches only log; output that does not
  decode is caught by the last one.
\<close>

definition detect ::
  "(string \<Rightarrow> string + string) \<Rightarrow> run_outcome \<Rightarrow> VersionDetector
     \<Rightarrow> MigratorXpressVersion option \<times> VersionDetector" where
  "detect decode outcome self =
     (if detection_done self then (detected_version self, self)
      else let self1 = self\<lparr>detection_done := True\<rparr> in
           case outcome of
             Completed rc out_bytes err_bytes \<Rightarrow>
               (case run_text decode rc out_bytes err_bytes of
                  DecodeError m \<Rightarrow> (detected_version self1, self1)
                | CompletedProcess returncode stdout stderr \<Rightarrow>
                    (case search_product (strip (stdout @ stderr)) of
                       Some (a, b, c) \<Rightarrow>
                         let self2 = self1\<lparr>detected_version :=
                                       Some \<lparr> major = int_of_digits a, minor = int_of_digits b,
                                              patch = int_of_digits c \<rparr>\<rparr>
                         in (detected_version self2, self2)
                     | None \<Rightarrow> (detected_version self1, self1)))
           | TimeoutExpired \<Rightarrow> (detected_version self1, self1)
           | FileNotFoundError m \<Rightarrow> (detected_version self1, self1)
           | OtherException m \<Rightarrow> (detected_version self1, self1))"

definition empty_capabilities :: VersionCapabilities where
  "empty_capabilities =
     \<lparr> source_databases = {}, target_databases = {}, migration_db_types = {}, tasks = {},
       fk_modes = {}, migration_db_modes = {}, load_modes = {},
       supports_no_banner = False, supports_version_flag = False,
       supports_fasttransfer = False, supports_license = False \<rparr>"

text \<open>
  The loop of \<^verbatim>\<open>capabilities\<close>: \<^verbatim>\<open>best\<close> is overwritten while \<^verbatim>\<open>ver <= detected\<close> holds,
  the first entry for which it fails ends the loop (\<^verbatim>\<open>break\<close>).
\<close>

fun best_loop ::
  "(MigratorXpressVersion \<times> VersionCapabilities) list \<Rightarrow> MigratorXpressVersion
     \<Rightarrow> VersionCapabilities option \<Rightarrow> VersionCapabilities option" where
  "best_loop [] detected best = best"
| "best_loop ((ver, caps) # rest) detected best =
     (if version_le ver detected then best_loop rest detected (Some caps) else best)"

text \<open>
  The property \<^verbatim>\<open>VersionDetector.capabilities\<close>. The module-level list
  \<^verbatim>\<open>_SORTED_VERSIONS\<close> is the first argument; \<open>decode\<close> and \<open>outcome\<close> are what
  \<^verbatim>\<open>detect\<close> needs when it has not run yet.
\<close>

definition capabilities ::
  "(MigratorXpressVersion \<times> VersionCapabilities) list \<Rightarrow> (string \<Rightarrow> string + string)
     \<Rightarrow> run_outcome \<Rightarrow> VersionDetector \<Rightarrow> VersionCapabilities \<times> VersionDetector" where
  "capabilities SORTED_VERSIONS decode outcome self =
     (let self1 = (if \<not> detection_done self then snd (detect decode outcome self) else self) in
      if SORTED_VERSIONS = [] then (empty_capabilities, self1)
      else case detected_version self1 of
             None \<Rightarrow> (snd (last SORTED_VERSIONS), self1)
           | Some detected \<Rightarrow>
               (case best_loop SORTED_VERSIONS detected None of
                  Some best \<Rightarrow> (best, self1)
                | None \<Rightarrow> (snd (last SORTED_VERSIONS), self1)))"

text \<open>
  The resolution rule in the words of the specification: \<open>c\<close> is the entry of a greatest
  registry version not above \<open>bound\<close>, respectively of a greatest registry version.
\<close>

definition greatest_entry_le ::
  "(MigratorXpressVersion \<times> VersionCapabilities) list \<Rightarrow> MigratorXpressVersion
     \<Rightarrow> VersionCapabilities \<Rightarrow> bool" where
  "greatest_entry_le reg bound c \<longleftrightarrow>
     (\<exists>e \<in> set reg. snd e = c \<and> version_le (fst e) bound
        \<and> (\<forall>e' \<in> set reg. version_le (fst e') bound \<longrightarrow> version_le (fst e') (fst e)))"

definition latest_entry ::
  "(MigratorXpressVersion \<times> VersionCapabilities) list \<Rightarrow> VersionCapabilities \<Rightarrow> bool" where
  "latest_entry reg c \<longleftrightarrow>
     (\<exists>e \<in> set reg. snd e = c \<and> (\<forall>e' \<in> set reg. version_le (fst e') (fst e)))"

subsection \<open>The command builder (\<^verbatim>\<open>migratorxpress.py\<close>)\<close>

record CommandBuilder =
  binary_path :: string
  version_detector :: VersionDetector

text \<open>
  \<^verbatim>\<open>CommandBuilder.__init__\<close>: \<^verbatim>\<open>_validate_binary\<close> looks at the file system (the three
  facts of \<open>file_status\<close>), then the detector is created and \<^verbatim>\<open>detect()\<close> is called once.
  \<open>binary_path\<close> holds \<^verbatim>\<open>str(self.binary_path)\<close>.
\<close>

record file_status =
  path_exists :: bool
  path_is_file :: bool
  path_executable :: bool

definition CommandBuilder_init ::
  "file_status \<Rightarrow> (string \<Rightarrow> string + string) \<Rightarrow> run_outcome \<Rightarrow> string
     \<Rightarrow> error + CommandBuilder" where
  "CommandBuilder_init fs decode probe path =
     (if \<not> path_exists fs
      then Inl (MigratorXpressError (''MigratorXpress binary not found at: '' @ path))
      else if \<not> path_is_file fs
      then Inl (MigratorXpressError (''MigratorXpress path is not a file: '' @ path))
      else if \<not> path_executable fs
      then Inl (MigratorXpressError (''MigratorXpress binary is not executable: '' @ path))
      else Inr \<lparr> binary_path = path,
                 version_detector = snd (detect decode probe (VersionDetector_init path)) \<rparr>)"

text \<open>The builder \<^verbatim>\<open>__init__\<close> leaves when the binary is in place and the version probe times out.\<close>

definition undetected_builder :: "string \<Rightarrow> CommandBuilder" where
  "undetected_builder path =
     \<lparr> binary_path = path,
       version_detector = \<lparr> detector_binary_path = path, detected_version = None,
                            detection_done = True \<rparr> \<rparr>"

text \<open>
  The shapes of the \<^verbatim>\<open>if ...: cmd.extend([...])\<close> statements of \<^verbatim>\<open>build_command\<close>:
  \<^item> \<open>if_truthy\<close>: \<^verbatim>\<open>if params.x: cmd.extend([flag, params.x])\<close> on an optional string
    (\<^verbatim>\<open>None\<close> and the empty string are falsy);
  \<^item> \<open>if_truthy_list\<close>: \<^verbatim>\<open>if params.x: cmd.append(flag); cmd.extend(params.x)\<close> on an
    optional list (\<^verbatim>\<open>None\<close> and the empty list are falsy);
  \<^item> \<open>if_not_None\<close>: \<^verbatim>\<open>if params.x is not None: cmd.extend([flag, render(params.x)])\<close>;
  \<^item> \<open>if_flag\<close>: \<^verbatim>\<open>if params.x: cmd.append(flag)\<close> on a bool.
  An enum member of a \<^verbatim>\<open>str\<close>-mixin enum is truthy when its value is a non-empty string,
  so \<^verbatim>\<open>if params.mode: cmd.extend([flag, params.mode.value])\<close> is \<open>if_truthy\<close> on the value.
\<close>

definition if_truthy :: "string \<Rightarrow> string option \<Rightarrow> string list" where
  "if_truthy flag v = (case v of None \<Rightarrow> [] | Some s \<Rightarrow> if s \<noteq> [] then [flag, s] else [])"

definition if_truthy_list :: "string \<Rightarrow> string list option \<Rightarrow> string list" where
  "if_truthy_list flag v = (case v of None \<Rightarrow> [] | Some xs \<Rightarrow> if xs \<noteq> [] then flag # xs else [])"

definition if_not_None :: "string \<Rightarrow> ('a \<Rightarrow> string) \<Rightarrow> 'a option \<Rightarrow> string list" where
  "if_not_None flag render v = (case v of None \<Rightarrow> [] | Some x \<Rightarrow> [flag, render x])"

definition if_flag :: "string \<Rightarrow> bool \<Rightarrow> string list" where
  "if_flag flag b = (if b then [flag] else [])"

text \<open>
  Python floats are the type parameter \<open>'f\<close> and \<^verbatim>\<open>str\<close> on a float is the parameter
  \<open>str_float\<close> of the builder. For the concrete examples, a float whose value is a whole
  number \<open>i\<close> with \<open>\<bar>i\<bar> < 10\<^sup>1\<^sup>6\<close> is represented by \<open>i\<close> (so \<open>0\<close> is the float \<^verbatim>\<open>0.0\<close>, which is
  also what an integer \<^verbatim>\<open>0\<close> given for a float field is converted to); \<^verbatim>\<open>str\<close> of such a
  float is the decimal of \<open>i\<close> followed by \<^verbatim>\<open>.0\<close>.
\<close>

definition str_whole_float :: "int \<Rightarrow> string" where
  "str_whole_float i = str_int i @ ''.0''"

text \<open>
  \<^verbatim>\<open>CommandBuilder.build_command\<close>. \<open>str_float\<close> is Python's \<^verbatim>\<open>str\<close> on a float;
  \<open>binary_path\<close> holds \<^verbatim>\<open>str(self.binary_path)\<close>.
\<close>

definition build_command ::
  "('f \<Rightarrow> string) \<Rightarrow> CommandBuilder \<Rightarrow> 'f MigrationParams \<Rightarrow> string list" where
  "build_command str_float self params =
     [binary_path self]
     @ [''-a'', auth_file params]
     @ [''--source_db_auth_id'', source_db_auth_id params]
     @ [''--source_db_name'', source_db_name params]
     @ [''--target_db_auth_id'', target_db_auth_id params]
     @ [''--target_db_name'', target_db_name params]
     @ [''--migration_db_auth_id'', migration_db_auth_id params]
     @ if_truthy ''--source_schema_name'' (source_schema_name params)
     @ if_truthy ''--target_schema_name'' (target_schema_name params)
     @ if_truthy_list ''--task_list'' (task_list params)
     @ if_truthy ''-r'' (resume params)
     @ if_truthy ''--fasttransfer_dir_path'' (fasttransfer_dir_path params)
     @ if_not_None ''-p'' str_int (fasttransfer_p params)
     @ if_not_None ''--ft_large_table_th'' str_int (ft_large_table_th params)
     @ if_not_None ''--n_jobs'' str_int (n_jobs params)
     @ if_not_None ''--cci_threshold'' str_int (cci_threshold params)
     @ if_not_None ''--aci_threshold'' str_int (aci_threshold params)
     @ if_truthy ''--migration_db_mode'' (map_option MigrationDbMode_value (migration_db_mode params))
     @ if_not_None ''--compute_nbrows'' id (compute_nbrows params)
     @ if_not_None ''--drop_tables_if_exists'' id (drop_tables_if_exists params)
     @ if_truthy ''--load_mode'' (map_option LoadMode_value (load_mode params))
     @ if_truthy ''-i'' (include_tables params)
     @ if_truthy ''-e'' (exclude_tables params)
     @ if_not_None ''-min'' str_int (min_rows params)
     @ if_not_None ''-max'' str_int (max_rows params)
     @ if_truthy_list ''--forced_int_id_prefixes'' (forced_int_id_prefixes params)
     @ if_truthy_list ''--forced_int_id_suffixes'' (forced_int_id_suffixes params)
     @ if_not_None ''--profiling_sample_pc'' str_float (profiling_sample_pc params)
     @ if_not_None ''--p_query'' str_float (p_query params)
     @ if_not_None ''--min_sample_pc_profile'' str_float (min_sample_pc_profile params)
     @ if_flag ''-f'' (force params)
     @ if_flag ''--basic_diff'' (basic_diff params)
     @ if_flag ''--without_xid'' (without_xid params)
     @ if_truthy ''--fk_mode'' (map_option FkMode_value (fk_mode params))
     @ if_truthy ''--log_level'' (map_option LogLevel_value (log_level params))
     @ if_truthy ''--log_dir'' (log_dir params)
     @ if_flag ''--no_banner'' (no_banner params)
     @ if_flag ''--no_progress'' (no_progress params)
     @ if_flag ''--quiet_ft'' (quiet_ft params)
     @ if_truthy ''--license'' (license params)
     @ if_truthy ''--license_file'' (license_file params)"

text \<open>
  The pieces \<^verbatim>\<open>build_command\<close> appends to \<^verbatim>\<open>cmd\<close>, one per statement of its body, in
  order. The command is their concatenation (lemma \<open>build_command_concat\<close>); the list is used
  to say where the tokens of one field sit among the tokens of the others.
\<close>

definition segments ::
  "('f \<Rightarrow> string) \<Rightarrow> CommandBuilder \<Rightarrow> 'f MigrationParams \<Rightarrow> string list list" where
  "segments str_float self params =
     [[binary_path self],
      [''-a'', auth_file params],
      [''--source_db_auth_id'', source_db_auth_id params],
      [''--source_db_name'', source_db_name params],
      [''--target_db_auth_id'', target_db_auth_id params],
      [''--target_db_name'', target_db_name params],
      [''--migration_db_auth_id'', migration_db_auth_id params],
      if_truthy ''--source_schema_name'' (source_schema_name params),
      if_truthy ''--target_schema_name'' (target_schema_name params),
      if_truthy_list ''--task_list'' (task_list params),
      if_truthy ''-r'' (resume params),
      if_truthy ''--fasttransfer_dir_path'' (fasttransfer_dir_path params),
      if_not_None ''-p'' str_int (fasttransfer_p params),
      if_not_None ''--ft_large_table_th'' str_int (ft_large_table_th params),
      if_not_None ''--n_jobs'' str_int (n_jobs params),
      if_not_None ''--cci_threshold'' str_int (cci_threshold params),
      if_not_None ''--aci_threshold'' str_int (aci_threshold params),
      if_truthy ''--migration_db_mode'' (map_option MigrationDbMode_value (migration_db_mode params)),
      if_not_None ''--compute_nbrows'' id (compute_nbrows params),
      if_not_None ''--drop_tables_if_exists'' id (drop_tables_if_exists params),
      if_truthy ''--load_mode'' (map_option LoadMode_value (load_mode params)),
      if_truthy ''-i'' (include_tables params),
      if_truthy ''-e'' (exclude_tables params),
      if_not_None ''-min'' str_int (min_rows params),
      if_not_None ''-max'' str_int (max_rows params),
      if_truthy_list ''--forced_int_id_prefixes'' (forced_int_id_prefixes params),
      if_truthy_list ''--forced_int_id_suffixes'' (forced_int_id_suffixes params),
      if_not_None ''--profiling_sample_pc'' str_float (profiling_sample_pc params),
      if_not_None ''--p_query'' str_float (p_query params),
      if_not_None ''--min_sample_pc_profile'' str_float (min_sample_pc_profile params),
      if_flag ''-f'' (force params),
      if_flag ''--basic_diff'' (basic_diff params),
      if_flag ''--without_xid'' (without_xid params),
      if_truthy ''--fk_mode'' (map_option FkMode_value (fk_mode params)),
      if_truthy ''--log_level'' (map_option LogLevel_value (log_level params)),
      if_truthy ''--log_dir'' (log_dir params),
      if_flag ''--no_banner'' (no_banner params),
      if_flag ''--no_progress'' (no_progress params),
      if_flag ''--quiet_ft'' (quiet_ft params),
      if_truthy ''--license'' (license params),
      if_truthy ''--license_file'' (license_file params)]"

text \<open>
  \<open>emits seg without with\<close>: the token list \<open>with\<close> is the token list \<open>without\<close> with the
  tokens \<open>seg\<close> inserted as one contiguous block, after the first \<open>k\<close> tokens for some \<open>k\<close>.
\<close>

definition emits :: "string list \<Rightarrow> string list \<Rightarrow> string list \<Rightarrow> bool" where
  "emits seg without with_seg \<longleftrightarrow>
     (\<exists>k \<in> {0..length without}. with_seg = take k without @ seg @ drop k without)"

subsection \<open>Masking\<close>

text \<open>
  \<^verbatim>\<open>mask_sensitive\<close> copies its argument and writes into the copy while it iterates over
  it. Lists are objects, so the model has a store of list objects: an address is an index into
  the store, \<^verbatim>\<open>list(command)\<close> allocates a new object, \<^verbatim>\<open>masked[i + 1] = ...\<close> writes
  into the object at the address \<open>masked\<close>.
\<close>

type_synonym addr = nat

type_synonym store = "string list list"

definition new_list :: "store \<Rightarrow> string list \<Rightarrow> store \<times> addr" where
  "new_list st xs = (st @ [xs], length st)"

definition set_item :: "store \<Rightarrow> addr \<Rightarrow> nat \<Rightarrow> string \<Rightarrow> store" where
  "set_item st a i v = st[a := (st ! a)[i := v]]"

text \<open>
  \<^verbatim>\<open>for i, token in enumerate(masked)\<close>: the list iterator reads \<^verbatim>\<open>masked[i]\<close> from the
  object as it is when step \<open>i\<close> is reached, and stops when \<open>i\<close> reaches its length.
\<close>

function mask_loop :: "store \<Rightarrow> addr \<Rightarrow> nat \<Rightarrow> store" where
  "mask_loop st masked i =
     (if i < length (st ! masked)
      then let token = st ! masked ! i
           in mask_loop
                (if token = ''--license'' \<and> i + 1 < length (st ! masked)
                 then set_item st masked (i + 1) ''******''
                 else st)
                masked (i + 1)
      else st)"
  by pat_completeness auto
termination
proof (relation "measure (\<lambda>(st, masked, i). length (st ! masked) - i)")
  show "wf (measure (\<lambda>(st, masked, i). length (st ! masked) - i))"
    by simp
next
  fix st :: store and masked i :: nat and token :: string
  assume lt: "i < length (st ! masked)"
  have "length (set_item st masked (i + 1) ''******'' ! masked) = length (st ! masked)"
    by (cases "masked < length st") (simp_all add: set_item_def list_update_beyond)
  with lt
  show "((if token = ''--license'' \<and> i + 1 < length (st ! masked)
          then set_item st masked (i + 1) ''******'' else st, masked, i + 1),
         (st, masked, i)) \<in> measure (\<lambda>(st, masked, i). length (st ! masked) - i)"
    by auto
qed

declare mask_loop.simps [simp del]

definition mask_sensitive :: "store \<Rightarrow> addr \<Rightarrow> store \<times> addr" where
  "mask_sensitive st command =
     (let (st1, masked) = new_list st (st ! command)
      in (mask_loop st1 masked 0, masked))"

text \<open>The tokens of the list \<^verbatim>\<open>mask_sensitive(command)\<close> returns, for a caller that only reads it.\<close>

definition masked_tokens :: "string list \<Rightarrow> string list" where
  "masked_tokens command = (let (st, masked) = mask_sensitive [command] 0 in st ! masked)"

text \<open>
  A left-to-right description of the same scan, used to state what the loop computes: a
  \<open>--license\<close> token that is followed by a token has that token overwritten, and the scan goes
  on from the overwritten token.
\<close>

fun scan_mask :: "string list \<Rightarrow> string list" where
  "scan_mask (x # y # r) =
     (if x = ''--license'' then x # scan_mask (''******'' # r) else x # scan_mask (y # r))"
| "scan_mask xs = xs"

subsection \<open>Formatting and execution (\<^verbatim>\<open>migratorxpress.py\<close>)\<close>

text \<open>\<^verbatim>\<open>sep.join(xs)\<close>, the line feed, and the double quote.\<close>

fun join :: "string \<Rightarrow> string list \<Rightarrow> string" where
  "join sep [] = []"
| "join sep [x] = x"
| "join sep (x # y # r) = x @ sep @ join sep (y # r)"

definition nl :: string where
  "nl = [CHR 0x0A]"

definition dq :: string where
  "dq = [CHR 0x22]"

definition starts_with_dash :: "string \<Rightarrow> bool" where
  "starts_with_dash s = (case s of [] \<Rightarrow> False | c # r \<Rightarrow> c = CHR ''-'')"

text \<open>
  The \<^verbatim>\<open>while\<close> loop of \<^verbatim>\<open>format_command_display\<close> over the tokens after the binary: a
  token that starts with a dash and has a next token that does not is joined with it (the
  value quoted when it contains a space) and both are consumed; any other token stands alone.
\<close>

fun format_parts :: "string list \<Rightarrow> string list" where
  "format_parts (x # y # r) =
     (if starts_with_dash x
      then (if \<not> starts_with_dash y
            then (if CHR '' '' \<in> set y then x @ '' '' @ dq @ y @ dq else x @ '' '' @ y)
                 # format_parts r
            else x # format_parts (y # r))
      else x # format_parts (y # r))"
| "format_parts xs = xs"

text \<open>
  \<^verbatim>\<open>format_command_display\<close>; \<^verbatim>\<open>display_cmd[0]\<close> raises on an empty command. The separator
  is a space, a backslash, a line feed and two spaces.
\<close>

definition format_command_display :: "CommandBuilder \<Rightarrow> string list \<Rightarrow> bool \<Rightarrow> error + string" where
  "format_command_display self command mask_values =
     (case (if mask_values then masked_tokens command else command) of
        [] \<Rightarrow> Inl IndexError
      | b # rest \<Rightarrow> Inr (join ('' '' @ [CHR 0x5C] @ nl @ ''  '') (b # format_parts rest)))"

text \<open>
  The effects of an execution on the world outside: the argument lists handed to
  \<^verbatim>\<open>subprocess.run\<close>, in order, and the execution logs written. A log is kept with its
  directory and without its time stamp and duration.
\<close>

record execution_log =
  log_dir_path :: string
  log_return_code :: int
  log_command :: string
  log_stdout :: string
  log_stderr :: string

record world =
  runs :: "string list list"
  logs :: "execution_log list"

text \<open>
  \<^verbatim>\<open>_save_execution_log\<close>: creating the directory or writing the file may fail
  (\<open>fs_ok = False\<close>); the exception is caught inside and only logged.
\<close>

definition save_execution_log ::
  "bool \<Rightarrow> world \<Rightarrow> string \<Rightarrow> string list \<Rightarrow> int \<Rightarrow> string \<Rightarrow> string \<Rightarrow> world" where
  "save_execution_log fs_ok w log_directory command return_code stdout stderr =
     (if fs_ok
      then w\<lparr>logs := logs w @
               [\<lparr> log_dir_path = log_directory, log_return_code = return_code,
                  log_command = join '' '' (masked_tokens command),
                  log_stdout = stdout, log_stderr = stderr \<rparr>]\<rparr>
      else w)"

text \<open>
  \<^verbatim>\<open>CommandBuilder.execute_command\<close>. \<open>outcome\<close> is what happens to the process started
  for the command and \<open>decode\<close> the text decoding of its output; the result is the returned
  triple or the raised \<^verbatim>\<open>MigratorXpressError\<close>. The first \<^verbatim>\<open>except\<close> clause takes
  \<^verbatim>\<open>TimeoutExpired\<close>, the second every other exception with its \<^verbatim>\<open>str\<close>, the
  \<^verbatim>\<open>UnicodeDecodeError\<close> of undecodable output included. A \<^verbatim>\<open>Path\<close> is always truthy, so
  \<^verbatim>\<open>if log_dir:\<close> tests for \<^verbatim>\<open>None\<close>.
\<close>

definition execute_command ::
  "(string \<Rightarrow> string + string) \<Rightarrow> run_outcome \<Rightarrow> bool \<Rightarrow> CommandBuilder \<Rightarrow> world
     \<Rightarrow> string list \<Rightarrow> int \<Rightarrow> string option
     \<Rightarrow> (error + int \<times> string \<times> string) \<times> world" where
  "execute_command decode outcome fs_ok self w command timeout log_directory =
     (let w1 = w\<lparr>runs := runs w @ [command]\<rparr> in
      case outcome of
        Completed rc out_bytes err_bytes \<Rightarrow>
          (case run_text decode rc out_bytes err_bytes of
             CompletedProcess returncode stdout stderr \<Rightarrow>
               (Inr (returncode, stdout, stderr),
                (case log_directory of
                   Some d \<Rightarrow> save_execution_log fs_ok w1 d command returncode stdout stderr
                 | None \<Rightarrow> w1))
           | DecodeError cause \<Rightarrow>
               (Inl (MigratorXpressError (''Execution failed: '' @ cause)), w1))
      | TimeoutExpired \<Rightarrow>
          (Inl (MigratorXpressError
                  (''Execution timed out after '' @ str_int timeout @ '' seconds'')), w1)
      | FileNotFoundError cause \<Rightarrow>
          (Inl (MigratorXpressError (''Execution failed: '' @ cause)), w1)
      | OtherException cause \<Rightarrow>
          (Inl (MigratorXpressError (''Execution failed: '' @ cause)), w1))"

subsection \<open>The tool handlers (\<^verbatim>\<open>server.py\<close>)\<close>

text \<open>
  Tool arguments are JSON values; a request's \<^verbatim>\<open>arguments\<close> dictionary is an association
  list. Floats stay abstract: \<open>nonzero\<close> is Python's truth value of a float.
\<close>

datatype 'f json =
    JNull
  | JBool bool
  | JInt int
  | JFloat 'f
  | JStr string
  | JArr "'f json list"
  | JObj "(string \<times> 'f json) list"

type_synonym 'f arguments = "(string \<times> 'f json) list"

fun truthy :: "('f \<Rightarrow> bool) \<Rightarrow> 'f json \<Rightarrow> bool" where
  "truthy nonzero JNull = False"
| "truthy nonzero (JBool b) = b"
| "truthy nonzero (JInt i) = (i \<noteq> 0)"
| "truthy nonzero (JFloat x) = nonzero x"
| "truthy nonzero (JStr s) = (s \<noteq> [])"
| "truthy nonzero (JArr xs) = (xs \<noteq> [])"
| "truthy nonzero (JObj kvs) = (kvs \<noteq> [])"

definition dict_get :: "'f arguments \<Rightarrow> string \<Rightarrow> 'f json \<Rightarrow> 'f json" where
  "dict_get arguments key dflt = (case map_of arguments key of Some v \<Rightarrow> v | None \<Rightarrow> dflt)"

record config =
  MIGRATORXPRESS_PATH :: string
  MIGRATORXPRESS_TIMEOUT :: int
  MIGRATORXPRESS_LOG_DIR :: string

definition binary_missing_message :: string where
  "binary_missing_message =
     ''Error: MigratorXpress binary not found. Please check MIGRATORXPRESS_PATH.''"

definition blocked_message :: string where
  "blocked_message =
     ''# Execution Blocked'' @ nl @ nl
     @ ''You must set `confirmation: true` to execute a command.'' @ nl
     @ ''This safety mechanism ensures commands are only executed with explicit approval.'' @ nl @ nl
     @ ''Please review the command carefully and confirm by setting:'' @ nl
     @ ''```json'' @ nl
     @ ''{'' @ dq @ ''confirmation'' @ dq @ '': true}'' @ nl
     @ ''```''"

definition execution_report :: "config \<Rightarrow> int \<Rightarrow> string \<Rightarrow> string \<Rightarrow> string" where
  "execution_report cfg return_code stdout stderr =
     (let success = (return_code = 0) in
      join nl
        ([''# MigratorXpress '' @ (if success then ''Completed'' else ''Failed''),
          '''',
          ''**Status**: '' @ (if success then ''Success'' else ''Failed''),
          ''**Return Code**: '' @ str_int return_code,
          ''**Log Location**: '' @ MIGRATORXPRESS_LOG_DIR cfg,
          '''',
          ''## Output:'',
          ''```'',
          (if stdout \<noteq> [] then stdout else ''(no output)''),
          ''```'']
         @ (if stderr \<noteq> [] then ['''', ''## Error Output:'', ''```'', stderr, ''```''] else [])
         @ (if \<not> success
            then ['''',
                  ''## Troubleshooting:'',
                  ''- Check the auth file path and credential IDs'',
                  ''- Verify source and target database connectivity'',
                  ''- Check migration database connectivity'',
                  ''- Verify database names and schema names are correct'',
                  ''- Review the full log file for more information'']
            else [])))"

text \<open>
  \<^verbatim>\<open>handle_execute_command\<close>. \<open>shlex_split\<close> is \<^verbatim>\<open>shlex.split\<close> on a string (it raises
  \<^verbatim>\<open>ValueError\<close> on unbalanced quotes); on a truthy argument that is not a string it raises
  \<^verbatim>\<open>AttributeError\<close>, which the handler does not catch. The result is the text of the reply,
  or the exception that leaves the handler, and the world after the call.
\<close>

definition handle_execute_command ::
  "('f \<Rightarrow> bool) \<Rightarrow> (string \<Rightarrow> error + string list) \<Rightarrow> (string \<Rightarrow> string + string)
     \<Rightarrow> run_outcome \<Rightarrow> bool \<Rightarrow> config
     \<Rightarrow> CommandBuilder option \<Rightarrow> world \<Rightarrow> 'f arguments \<Rightarrow> (error + string) \<times> world" where
  "handle_execute_command nonzero shlex_split decode outcome fs_ok cfg command_builder w arguments =
     (case command_builder of
        None \<Rightarrow> (Inr binary_missing_message, w)
      | Some cb \<Rightarrow>
          if \<not> truthy nonzero (dict_get arguments ''confirmation'' (JBool False))
          then (Inr blocked_message, w)
          else
            let command_str = dict_get arguments ''command'' (JStr '''') in
            if \<not> truthy nonzero command_str
            then (Inr ''Error: No command provided. Please provide the command from preview_command.'', w)
            else
              (case command_str of
                 JStr s \<Rightarrow>
                   (case shlex_split s of
                      Inl (ValueError m) \<Rightarrow> (Inr (''Error parsing command: '' @ m), w)
                    | Inl e \<Rightarrow> (Inl e, w)
                    | Inr command \<Rightarrow>
                        (case execute_command decode outcome fs_ok cb w command
                                (MIGRATORXPRESS_TIMEOUT cfg) (Some (MIGRATORXPRESS_LOG_DIR cfg)) of
                           (Inr (return_code, stdout, stderr), w') \<Rightarrow>
                             (Inr (execution_report cfg return_code stdout stderr), w')
                         | (Inl (MigratorXpressError m), w') \<Rightarrow>
                             (Inr (''# Execution Failed'' @ nl @ nl @ ''Error: '' @ m), w')
                         | (Inl e, w') \<Rightarrow> (Inl e, w')))
               | _ \<Rightarrow> (Inl AttributeError, w)))"

text \<open>
  \<^verbatim>\<open>shlex.split\<close> on a string without quote, backslash or comment characters gives its
  whitespace-separated words; \<open>plain_split\<close> is that function, for the concrete examples.
\<close>

fun split_words :: "string \<Rightarrow> string \<Rightarrow> string list" where
  "split_words word [] = (if word = [] then [] else [word])"
| "split_words word (c # cs) =
     (if is_space c
      then (if word = [] then split_words [] cs else word # split_words [] cs)
      else split_words (word @ [c]) cs)"

definition plain_split :: "string \<Rightarrow> error + string list" where
  "plain_split s = Inr (split_words [] s)"

text \<open>
  \<^verbatim>\<open>_build_command_explanation\<close>: the numbered lines of the preview. \<open>sq\<close> is the single
  quote; the dash in the force warning is the three bytes of U+2014.
\<close>

definition sq :: string where
  "sq = [CHR 0x27]"

definition when_truthy :: "string option \<Rightarrow> (string \<Rightarrow> 'a list) \<Rightarrow> 'a list" where
  "when_truthy v f = (case v of None \<Rightarrow> [] | Some s \<Rightarrow> if s \<noteq> [] then f s else [])"

definition build_command_explanation :: "'f MigrationParams \<Rightarrow> string" where
  "build_command_explanation params =
     (let filters =
            when_truthy (include_tables params) (\<lambda>s. [''include: '' @ s])
            @ when_truthy (exclude_tables params) (\<lambda>s. [''exclude: '' @ s])
            @ (case min_rows params of None \<Rightarrow> [] | Some n \<Rightarrow> [''min rows: '' @ str_int n])
            @ (case max_rows params of None \<Rightarrow> [] | Some n \<Rightarrow> [''max rows: '' @ str_int n]);
          parts =
            [''Migrate from source database '' @ sq @ source_db_name params @ sq
               @ '' to target database '' @ sq @ target_db_name params @ sq]
            @ when_truthy (source_schema_name params) (\<lambda>s. [''Source schema: '' @ s])
            @ when_truthy (target_schema_name params) (\<lambda>s. [''Target schema: '' @ s])
            @ (case task_list params of
                 None \<Rightarrow> [''No specific tasks selected (defaults will apply)'']
               | Some ts \<Rightarrow>
                   if ts \<noteq> [] then [''Tasks: '' @ join '', '' ts]
                   else [''No specific tasks selected (defaults will apply)''])
            @ when_truthy (fasttransfer_dir_path params)
                (\<lambda>s. [''FastTransfer enabled (path: '' @ s @ '')''
                        @ (case fasttransfer_p params of
                             None \<Rightarrow> []
                           | Some n \<Rightarrow> '', parallelism: '' @ str_int n)])
            @ (if filters \<noteq> [] then [''Table filters: '' @ join '', '' filters] else [])
            @ when_truthy (resume params) (\<lambda>s. [''Resuming previous run: '' @ s])
            @ (if force params
               then [''WARNING: Force flag is set '' @ [CHR 0xE2, CHR 0x80, CHR 0x94]
                       @ '' existing data may be overwritten'']
               else [])
            @ when_truthy (license params) (\<lambda>s. [''License key provided (masked in display)''])
      in join nl (map (\<lambda>(i, part). str_int (int i + 1) @ ''. '' @ part) (enumerate 0 parts)))"

text \<open>
  \<^verbatim>\<open>MigrationParams(**arguments)\<close>. The conversion of the raw values to the declared field
  types is the library's: \<open>coerce\<close> gives the typed model or the list of field errors
  (location, message). Then the model validators run; a \<^verbatim>\<open>ValueError\<close> they raise becomes
  a \<^verbatim>\<open>ValidationError\<close> with one error at the empty location.
\<close>

definition MigrationParams_of_arguments ::
  "('f arguments \<Rightarrow> (string list \<times> string) list + 'f MigrationParams) \<Rightarrow> 'f arguments
     \<Rightarrow> error + 'f MigrationParams" where
  "MigrationParams_of_arguments coerce arguments =
     (case coerce arguments of
        Inl errors \<Rightarrow> Inl (ValidationError errors)
      | Inr p \<Rightarrow>
          (case validate p of
             Inl (ValueError m) \<Rightarrow> Inl (ValidationError [([], ''Value error, '' @ m)])
           | Inl e \<Rightarrow> Inl e
           | Inr p' \<Rightarrow> Inr p'))"

text \<open>
  Modelled from the spec: the parts of the compatibility check below, which is not in the
  sources. \<open>requested_strings\<close> are the identifiers a raw value asks for (a string, or the
  strings of an array), \<open>is_requested\<close> tells whether a raw value asks for a feature,
  \<open>not_known\<close> gives one warning for each requested identifier outside the known set and
  \<open>not_supported\<close> one warning for a requested feature whose capability flag is false.
\<close>

fun requested_strings :: "'f json \<Rightarrow> string list" where
  "requested_strings (JStr s) = [s]"
| "requested_strings (JArr xs) = concat (map (\<lambda>x. case x of JStr s \<Rightarrow> [s] | _ \<Rightarrow> []) xs)"
| "requested_strings j = []"

fun is_requested :: "'f json \<Rightarrow> bool" where
  "is_requested JNull = False"
| "is_requested (JBool b) = b"
| "is_requested j = True"

definition installed_label :: "MigratorXpressVersion option \<Rightarrow> string" where
  "installed_label detected =
     (case detected of
        None \<Rightarrow> ''the installed MigratorXpress (version not detected)''
      | Some v \<Rightarrow> ''MigratorXpress '' @ version_str v)"

definition not_known ::
  "string \<Rightarrow> string set \<Rightarrow> 'f json \<Rightarrow> MigratorXpressVersion option \<Rightarrow> string list" where
  "not_known kind known requested detected =
     map (\<lambda>v. kind @ '' '' @ sq @ v @ sq @ '' is not supported by '' @ installed_label detected)
         (filter (\<lambda>v. v \<notin> known) (requested_strings requested))"

definition not_supported ::
  "string \<Rightarrow> bool \<Rightarrow> bool \<Rightarrow> MigratorXpressVersion option \<Rightarrow> string list" where
  "not_supported feature supported requested detected =
     (if requested \<and> \<not> supported
      then [feature @ '' is not supported by '' @ installed_label detected]
      else [])"

text \<open>
  Modelled from the spec: the function \<^verbatim>\<open>check_version_compatibility\<close>, which
  \<^verbatim>\<open>server.py\<close> imports from \<^verbatim>\<open>version.py\<close> and calls, is not in the sources. By section
  4.3 it takes the raw request, the resolved capabilities and the detected version and gives
  one warning string for each requested feature or value that the capability set does not
  have: a task, an FK mode, a migration-db mode or a load mode outside the known set, a
  fast-transfer, license or no-banner request when the capability flag is false. The wording
  of the warnings is the model's.
\<close>

definition check_version_compatibility ::
  "'f arguments \<Rightarrow> VersionCapabilities \<Rightarrow> MigratorXpressVersion option \<Rightarrow> string list" where
  "check_version_compatibility arguments caps detected =
     not_known ''Task'' (tasks caps) (dict_get arguments ''task_list'' JNull) detected
     @ not_known ''FK mode'' (fk_modes caps) (dict_get arguments ''fk_mode'' JNull) detected
     @ not_known ''Migration DB mode'' (migration_db_modes caps)
         (dict_get arguments ''migration_db_mode'' JNull) detected
     @ not_known ''Load mode'' (load_modes caps) (dict_get arguments ''load_mode'' JNull) detected
     @ not_supported ''FastTransfer'' (supports_fasttransfer caps)
         (is_requested (dict_get arguments ''fasttransfer_dir_path'' JNull)) detected
     @ not_supported ''The license option'' (supports_license caps)
         (is_requested (dict_get arguments ''license'' JNull)
          \<or> is_requested (dict_get arguments ''license_file'' JNull)) detected
     @ not_supported ''The no_banner flag'' (supports_no_banner caps)
         (is_requested (dict_get arguments ''no_banner'' JNull)) detected"

text \<open>
  The reply of \<^verbatim>\<open>handle_preview_command\<close> for a valid request, as the list
  \<^verbatim>\<open>response\<close> the handler builds: four lines of heading and explanation, the warnings
  section when there are warnings, and the command sections. The heading of the warnings
  section starts with the three bytes of U+26A0.
\<close>

definition preview_response :: "string \<Rightarrow> string list \<Rightarrow> string \<Rightarrow> string list \<Rightarrow> string list" where
  "preview_response explanation version_warnings display_command command =
     [''# MigratorXpress Command Preview'',
      '''',
      ''## What this command will do:'',
      explanation]
     @ (if version_warnings \<noteq> []
        then ['''',
              ''## '' @ [CHR 0xE2, CHR 0x9A, CHR 0xA0] @ '' Version Compatibility Warnings'']
             @ map (\<lambda>warning. ''- '' @ warning) version_warnings
        else [])
     @ ['''',
        ''## Command:'',
        ''```bash'',
        display_command,
        ''```'',
        '''',
        ''## To execute this command:'',
        ''1. Review the command carefully'',
        ''2. Use the `execute_command` tool with the FULL command'',
        ''3. Set `confirmation: true` to proceed'',
        '''',
        ''## Full command for execution:'',
        ''```'',
        join '' '' command,
        ''```'']"

definition validation_error_response :: "(string list \<times> string) list \<Rightarrow> string list" where
  "validation_error_response errors =
     [''# Validation Error'',
      '''',
      ''The provided parameters are invalid:'',
      '''']
     @ map (\<lambda>(loc, msg). ''- **'' @ join '' -> '' loc @ ''**: '' @ msg) errors"

text \<open>
  \<^verbatim>\<open>handle_preview_command\<close>. \<open>check\<close> is the compatibility check the handler calls,
  \<open>SORTED_VERSIONS\<close>, \<open>decode\<close> and \<open>probe\<close> are what the \<^verbatim>\<open>capabilities\<close> property needs. The result
  is the text of the reply, or the exception that leaves the handler, and the builder after
  the call (reading \<^verbatim>\<open>capabilities\<close> may run the detection).
\<close>

definition handle_preview_command ::
  "('f arguments \<Rightarrow> VersionCapabilities \<Rightarrow> MigratorXpressVersion option \<Rightarrow> string list)
     \<Rightarrow> ('f arguments \<Rightarrow> (string list \<times> string) list + 'f MigrationParams)
     \<Rightarrow> ('f \<Rightarrow> string)
     \<Rightarrow> (MigratorXpressVersion \<times> VersionCapabilities) list
     \<Rightarrow> (string \<Rightarrow> string + string) \<Rightarrow> run_outcome \<Rightarrow> config
     \<Rightarrow> CommandBuilder option \<Rightarrow> 'f arguments \<Rightarrow> (error + string) \<times> CommandBuilder option" where
  "handle_preview_command check coerce str_float SORTED_VERSIONS decode probe cfg command_builder arguments =
     (case command_builder of
        None \<Rightarrow>
          (Inr (''Error: MigratorXpress binary not found or not accessible.'' @ nl
                @ ''Expected location: '' @ MIGRATORXPRESS_PATH cfg @ nl
                @ ''Please set MIGRATORXPRESS_PATH environment variable correctly.''),
           None)
      | Some cb \<Rightarrow>
          (case MigrationParams_of_arguments coerce arguments of
             Inl (ValidationError errors) \<Rightarrow>
               (Inr (join nl (validation_error_response errors)), Some cb)
           | Inl e \<Rightarrow> (Inl e, Some cb)
           | Inr params \<Rightarrow>
               let (caps, detector) = capabilities SORTED_VERSIONS decode probe (version_detector cb);
                   cb1 = cb\<lparr>version_detector := detector\<rparr>;
                   version_warnings = check arguments caps (detected_version detector);
                   command = build_command str_float cb1 params
               in (case format_command_display cb1 command True of
                     Inl e \<Rightarrow> (Inl e, Some cb1)
                   | Inr display_command \<Rightarrow>
                       (Inr (join nl (preview_response (build_command_explanation params)
                                        version_warnings display_command command)),
                        Some cb1))))"

section \<open>Properties\<close>

lemma if_truthy_None [simp]: "if_truthy flag None = []"
  by (simp add: if_truthy_def)

lemma if_truthy_list_None [simp]: "if_truthy_list flag None = []"
  by (simp add: if_truthy_list_def)

lemma if_not_None_None [simp]: "if_not_None flag render None = []"
  by (simp add: if_not_None_def)

lemma if_flag_False [simp]: "if_flag flag False = []"
  by (simp add: if_flag_def)

lemma binary_path_undetected [simp]: "binary_path (undetected_builder path) = path"
  by (simp add: undetected_builder_def)

text \<open>
  C1. The minimal parameter set (six required fields, every optional field absent) builds
  to the binary path followed by the six flag/value pairs, \<open>-a\<close> first: the binary is
  token 0 and token 1 is the flag \<open>-a\<close>, not a subcommand.
\<close>

theorem C1_minimal_command:
  "build_command str_float self
     (required_only ''auth.json'' ''s'' ''d1'' ''t'' ''d2'' ''m'')
   = [binary_path self, ''-a'', ''auth.json'', ''--source_db_auth_id'', ''s'',
      ''--source_db_name'', ''d1'', ''--target_db_auth_id'', ''t'',
      ''--target_db_name'', ''d2'', ''--migration_db_auth_id'', ''m'']
   \<and> build_command str_float self
         (required_only ''auth.json'' ''s'' ''d1'' ''t'' ''d2'' ''m'') ! 0 = binary_path self
   \<and> build_command str_float self
         (required_only ''auth.json'' ''s'' ''d1'' ''t'' ''d2'' ''m'') ! 1 = ''-a''"
  by (simp add: build_command_def required_only_def)


subsection \<open>Validation\<close>

lemma validate_unfold:
  "validate_task_list_values p = Inr p \<Longrightarrow>
   validate p = (case validate_string_booleans p of
                   Inl e \<Rightarrow> Inl e
                 | Inr p2 \<Rightarrow> validate_license_mutual_exclusivity p2)"
  by (simp add: validate_def)

lemma validate_string_booleans_result:
  "validate_string_booleans p = Inr q \<Longrightarrow> q = p"
  by (auto simp: validate_string_booleans_def split: option.splits)

lemma all_is_valid_task: "''all'' \<in> set valid_tasks"
  by (simp add: valid_tasks_def TaskType_members_def)

text \<open>
  C8. A task list that contains \<open>all\<close> and has at least one more element is rejected by
  \<^verbatim>\<open>validate_task_list_values\<close>, hence by validation as a whole (it is the first
  validator to run). The task list \<open>[all]\<close> is accepted by that validator, and validation as
  a whole then succeeds exactly when the two remaining validators (string booleans, license
  exclusivity) accept.
\<close>

theorem C8_all_not_combined:
  "(task_list p = Some ts \<and> ''all'' \<in> set ts \<and> length ts > 1 \<longrightarrow>
      (\<exists>e. validate_task_list_values p = Inl e \<and> validate p = Inl e))
   \<and> (task_list p = Some [''all''] \<longrightarrow>
        validate_task_list_values p = Inr p
        \<and> (validate p = Inr p \<longleftrightarrow>
             validate_string_booleans p = Inr p \<and> validate_license_mutual_exclusivity p = Inr p))"
proof (intro conjI impI)
  assume a: "task_list p = Some ts \<and> ''all'' \<in> set ts \<and> length ts > 1"
  then show "\<exists>e. validate_task_list_values p = Inl e \<and> validate p = Inl e"
    by (auto simp: validate_task_list_values_def validate_def split: option.splits)
next
  assume a: "task_list p = Some [''all'']"
  show t: "validate_task_list_values p = Inr p"
    using a all_is_valid_task by (simp add: validate_task_list_values_def)
  show "validate p = Inr p \<longleftrightarrow>
        validate_string_booleans p = Inr p \<and> validate_license_mutual_exclusivity p = Inr p"
  proof (cases "validate_string_booleans p")
    case (Inl e)
    then show ?thesis using t by (simp add: validate_def)
  next
    case (Inr q)
    then have "q = p" by (rule validate_string_booleans_result)
    with Inr show ?thesis using t by (simp add: validate_def)
  qed
qed

theorem C8_all_not_combined_witness:
  "(\<exists>e. validate_task_list_values
           ((required_only ''auth.json'' ''s'' ''d1'' ''t'' ''d2'' ''m'' :: unit MigrationParams)
              \<lparr>task_list := Some [''all'', ''translate'']\<rparr>) = Inl e)
   \<and> validate ((required_only ''auth.json'' ''s'' ''d1'' ''t'' ''d2'' ''m'' :: unit MigrationParams)
                 \<lparr>task_list := Some [''all'']\<rparr>)
     = Inr ((required_only ''auth.json'' ''s'' ''d1'' ''t'' ''d2'' ''m'')
              \<lparr>task_list := Some [''all'']\<rparr>)"
proof -
  let ?m = "required_only ''auth.json'' ''s'' ''d1'' ''t'' ''d2'' ''m'' :: unit MigrationParams"
  have 1: "task_list (?m\<lparr>task_list := Some [''all'', ''translate'']\<rparr>) = Some [''all'', ''translate'']
           \<and> ''all'' \<in> set [''all'', ''translate''] \<and> length [''all'', ''translate''] > 1"
    by simp
  have 2: "task_list (?m\<lparr>task_list := Some [''all'']\<rparr>) = Some [''all'']"
    by simp
  have 3: "validate_string_booleans (?m\<lparr>task_list := Some [''all'']\<rparr>)
             = Inr (?m\<lparr>task_list := Some [''all'']\<rparr>)"
    by (simp add: validate_string_booleans_def string_boolean_check_def required_only_def)
  have 4: "validate_license_mutual_exclusivity (?m\<lparr>task_list := Some [''all'']\<rparr>)
             = Inr (?m\<lparr>task_list := Some [''all'']\<rparr>)"
    by (simp add: validate_license_mutual_exclusivity_def required_only_def)
  from C8_all_not_combined [of "?m\<lparr>task_list := Some [''all'', ''translate'']\<rparr>" "[''all'', ''translate'']"]
       C8_all_not_combined [of "?m\<lparr>task_list := Some [''all'']\<rparr>" "[]"]
       1 2 3 4
  show ?thesis by blast
qed

text \<open>
  C9. When \<open>license\<close> and \<open>license_file\<close> are both set (not \<^verbatim>\<open>None\<close>), the exclusivity
  validator raises and validation as a whole fails; when at most one of them is set, the
  exclusivity validator accepts.
\<close>

theorem C9_license_exclusive:
  "(license p \<noteq> None \<and> license_file p \<noteq> None \<longrightarrow>
      (\<exists>e. validate_license_mutual_exclusivity p = Inl e) \<and> (\<exists>e. validate p = Inl e))
   \<and> (license p = None \<or> license_file p = None \<longrightarrow>
        validate_license_mutual_exclusivity p = Inr p)"
proof (intro conjI impI)
  assume a: "license p \<noteq> None \<and> license_file p \<noteq> None"
  then show "\<exists>e. validate_license_mutual_exclusivity p = Inl e"
    by (simp add: validate_license_mutual_exclusivity_def)
  show "\<exists>e. validate p = Inl e"
  proof (cases "validate_task_list_values p")
    case (Inl e)
    then show ?thesis by (simp add: validate_def)
  next
    case (Inr p1)
    then have p1: "p1 = p"
      by (auto simp: validate_task_list_values_def split: option.splits if_splits)
    show ?thesis
    proof (cases "validate_string_booleans p")
      case (Inl e)
      then show ?thesis using Inr p1 by (simp add: validate_def)
    next
      case r: (Inr p2)
      then have "p2 = p" by (rule validate_string_booleans_result)
      then show ?thesis using Inr p1 r a
        by (simp add: validate_def validate_license_mutual_exclusivity_def)
    qed
  qed
next
  assume "license p = None \<or> license_file p = None"
  then show "validate_license_mutual_exclusivity p = Inr p"
    by (auto simp: validate_license_mutual_exclusivity_def)
qed

theorem C9_license_exclusive_witness:
  "(\<exists>e. validate ((required_only ''auth.json'' ''s'' ''d1'' ''t'' ''d2'' ''m'' :: unit MigrationParams)
                    \<lparr>license := Some ''ABC-123'', license_file := Some ''/path/to/license''\<rparr>) = Inl e)
   \<and> validate_license_mutual_exclusivity
        ((required_only ''auth.json'' ''s'' ''d1'' ''t'' ''d2'' ''m'' :: unit MigrationParams)
           \<lparr>license := Some ''ABC-123''\<rparr>)
      = Inr ((required_only ''auth.json'' ''s'' ''d1'' ''t'' ''d2'' ''m'')\<lparr>license := Some ''ABC-123''\<rparr>)"
proof -
  let ?m = "required_only ''auth.json'' ''s'' ''d1'' ''t'' ''d2'' ''m'' :: unit MigrationParams"
  have 1: "license (?m\<lparr>license := Some ''ABC-123'', license_file := Some ''/path/to/license''\<rparr>) \<noteq> None
           \<and> license_file (?m\<lparr>license := Some ''ABC-123'', license_file := Some ''/path/to/license''\<rparr>) \<noteq> None"
    by simp
  have 2: "license (?m\<lparr>license := Some ''ABC-123''\<rparr>) = None
           \<or> license_file (?m\<lparr>license := Some ''ABC-123''\<rparr>) = None"
    by (simp add: required_only_def)
  from C9_license_exclusive [of "?m\<lparr>license := Some ''ABC-123'', license_file := Some ''/path/to/license''\<rparr>"]
       C9_license_exclusive [of "?m\<lparr>license := Some ''ABC-123''\<rparr>"] 1 2
  show ?thesis by blast
qed

subsection \<open>Command construction\<close>

lemma build_command_concat: "build_command sf self p = concat (segments sf self p)"
  by (simp add: build_command_def segments_def)

lemma length_segments: "length (segments sf self p) = 41"
  by (simp add: segments_def)

lemma emits_update:
  assumes "k < length xs"
  shows "emits s (concat (xs[k := []])) (concat (xs[k := s]))"
proof -
  let ?pre = "concat (take k xs)" and ?post = "concat (drop (Suc k) xs)"
  have without: "concat (xs[k := []]) = ?pre @ ?post"
    and with_seg: "concat (xs[k := s]) = ?pre @ s @ ?post"
    using assms by (simp_all add: upd_conv_take_nth_drop)
  show ?thesis
    unfolding emits_def without with_seg
    by (rule bexI [of _ "length ?pre"]) simp_all
qed

lemma emits_count:
  assumes "emits seg without with_seg"
  shows "count_list with_seg x = count_list seg x + count_list without x"
proof -
  from assms obtain k where w: "with_seg = take k without @ seg @ drop k without"
    by (auto simp: emits_def)
  have "count_list without x = count_list (take k without @ drop k without) x"
    by simp
  then show ?thesis
    unfolding w by (simp del: append_take_drop_id)
qed

lemma segments_update:
  "segments sf self (p\<lparr>task_list := l\<rparr>) = (segments sf self p)[9 := if_truthy_list ''--task_list'' l]"
  "segments sf self (p\<lparr>fasttransfer_p := v\<rparr>) = (segments sf self p)[12 := if_not_None ''-p'' str_int v]"
  "segments sf self (p\<lparr>ft_large_table_th := v\<rparr>) = (segments sf self p)[13 := if_not_None ''--ft_large_table_th'' str_int v]"
  "segments sf self (p\<lparr>n_jobs := v\<rparr>) = (segments sf self p)[14 := if_not_None ''--n_jobs'' str_int v]"
  "segments sf self (p\<lparr>cci_threshold := v\<rparr>) = (segments sf self p)[15 := if_not_None ''--cci_threshold'' str_int v]"
  "segments sf self (p\<lparr>aci_threshold := v\<rparr>) = (segments sf self p)[16 := if_not_None ''--aci_threshold'' str_int v]"
  "segments sf self (p\<lparr>compute_nbrows := s\<rparr>) = (segments sf self p)[18 := if_not_None ''--compute_nbrows'' id s]"
  "segments sf self (p\<lparr>drop_tables_if_exists := s\<rparr>) = (segments sf self p)[19 := if_not_None ''--drop_tables_if_exists'' id s]"
  "segments sf self (p\<lparr>min_rows := v\<rparr>) = (segments sf self p)[23 := if_not_None ''-min'' str_int v]"
  "segments sf self (p\<lparr>max_rows := v\<rparr>) = (segments sf self p)[24 := if_not_None ''-max'' str_int v]"
  "segments sf self (p\<lparr>forced_int_id_prefixes := l\<rparr>) = (segments sf self p)[25 := if_truthy_list ''--forced_int_id_prefixes'' l]"
  "segments sf self (p\<lparr>forced_int_id_suffixes := l\<rparr>) = (segments sf self p)[26 := if_truthy_list ''--forced_int_id_suffixes'' l]"
  "segments sf self (p\<lparr>profiling_sample_pc := f\<rparr>) = (segments sf self p)[27 := if_not_None ''--profiling_sample_pc'' sf f]"
  "segments sf self (p\<lparr>p_query := f\<rparr>) = (segments sf self p)[28 := if_not_None ''--p_query'' sf f]"
  "segments sf self (p\<lparr>min_sample_pc_profile := f\<rparr>) = (segments sf self p)[29 := if_not_None ''--min_sample_pc_profile'' sf f]"
  by (simp_all add: segments_def)

lemma emits_segment:
  assumes "segments sf self q = (segments sf self p)[k := seg]"
      and "segments sf self q0 = (segments sf self p)[k := []]"
      and "k < 41"
  shows "emits seg (build_command sf self q0) (build_command sf self q)"
  using emits_update [of k "segments sf self p" seg] assms
  by (simp add: build_command_concat length_segments)

lemma str_int_0: "str_int 0 = ''0''"
  by (simp add: str_int_def str_nat.simps)

lemma emits_int:
  "emits [''-p'', str_int n] (build_command sf self (p\<lparr>fasttransfer_p := None\<rparr>)) (build_command sf self (p\<lparr>fasttransfer_p := Some n\<rparr>))"
  "emits [''--ft_large_table_th'', str_int n] (build_command sf self (p\<lparr>ft_large_table_th := None\<rparr>)) (build_command sf self (p\<lparr>ft_large_table_th := Some n\<rparr>))"
  "emits [''--n_jobs'', str_int n] (build_command sf self (p\<lparr>n_jobs := None\<rparr>)) (build_command sf self (p\<lparr>n_jobs := Some n\<rparr>))"
  "emits [''--cci_threshold'', str_int n] (build_command sf self (p\<lparr>cci_threshold := None\<rparr>)) (build_command sf self (p\<lparr>cci_threshold := Some n\<rparr>))"
  "emits [''--aci_threshold'', str_int n] (build_command sf self (p\<lparr>aci_threshold := None\<rparr>)) (build_command sf self (p\<lparr>aci_threshold := Some n\<rparr>))"
  "emits [''-min'', str_int n] (build_command sf self (p\<lparr>min_rows := None\<rparr>)) (build_command sf self (p\<lparr>min_rows := Some n\<rparr>))"
  "emits [''-max'', str_int n] (build_command sf self (p\<lparr>max_rows := None\<rparr>)) (build_command sf self (p\<lparr>max_rows := Some n\<rparr>))"
  by (rule emits_segment [where p = p], simp add: segments_update if_not_None_def, simp add: segments_update, simp)+

lemma emits_is_not_None:
  "emits [''--compute_nbrows'', s] (build_command sf self (p\<lparr>compute_nbrows := None\<rparr>)) (build_command sf self (p\<lparr>compute_nbrows := Some s\<rparr>))"
  "emits [''--drop_tables_if_exists'', s] (build_command sf self (p\<lparr>drop_tables_if_exists := None\<rparr>)) (build_command sf self (p\<lparr>drop_tables_if_exists := Some s\<rparr>))"
  "emits [''--profiling_sample_pc'', sf x] (build_command sf self (p\<lparr>profiling_sample_pc := None\<rparr>)) (build_command sf self (p\<lparr>profiling_sample_pc := Some x\<rparr>))"
  "emits [''--p_query'', sf x] (build_command sf self (p\<lparr>p_query := None\<rparr>)) (build_command sf self (p\<lparr>p_query := Some x\<rparr>))"
  "emits [''--min_sample_pc_profile'', sf x] (build_command sf self (p\<lparr>min_sample_pc_profile := None\<rparr>)) (build_command sf self (p\<lparr>min_sample_pc_profile := Some x\<rparr>))"
  by (rule emits_segment [where p = p], simp add: segments_update if_not_None_def, simp add: segments_update, simp)+

lemma emits_list:
  "vs \<noteq> [] \<Longrightarrow> emits (''--task_list'' # vs) (build_command sf self (p\<lparr>task_list := None\<rparr>)) (build_command sf self (p\<lparr>task_list := Some vs\<rparr>))"
  "vs \<noteq> [] \<Longrightarrow> emits (''--forced_int_id_prefixes'' # vs) (build_command sf self (p\<lparr>forced_int_id_prefixes := None\<rparr>)) (build_command sf self (p\<lparr>forced_int_id_prefixes := Some vs\<rparr>))"
  "vs \<noteq> [] \<Longrightarrow> emits (''--forced_int_id_suffixes'' # vs) (build_command sf self (p\<lparr>forced_int_id_suffixes := None\<rparr>)) (build_command sf self (p\<lparr>forced_int_id_suffixes := Some vs\<rparr>))"
  by (rule emits_segment [where p = p], simp add: segments_update if_truthy_list_def, simp add: segments_update, simp)+

lemma empty_string_absent:
  "build_command sf self (p\<lparr>source_schema_name := Some ''''\<rparr>) = build_command sf self (p\<lparr>source_schema_name := None\<rparr>)"
  "build_command sf self (p\<lparr>target_schema_name := Some ''''\<rparr>) = build_command sf self (p\<lparr>target_schema_name := None\<rparr>)"
  "build_command sf self (p\<lparr>resume := Some ''''\<rparr>) = build_command sf self (p\<lparr>resume := None\<rparr>)"
  "build_command sf self (p\<lparr>fasttransfer_dir_path := Some ''''\<rparr>) = build_command sf self (p\<lparr>fasttransfer_dir_path := None\<rparr>)"
  "build_command sf self (p\<lparr>include_tables := Some ''''\<rparr>) = build_command sf self (p\<lparr>include_tables := None\<rparr>)"
  "build_command sf self (p\<lparr>exclude_tables := Some ''''\<rparr>) = build_command sf self (p\<lparr>exclude_tables := None\<rparr>)"
  "build_command sf self (p\<lparr>log_dir := Some ''''\<rparr>) = build_command sf self (p\<lparr>log_dir := None\<rparr>)"
  "build_command sf self (p\<lparr>license := Some ''''\<rparr>) = build_command sf self (p\<lparr>license := None\<rparr>)"
  "build_command sf self (p\<lparr>license_file := Some ''''\<rparr>) = build_command sf self (p\<lparr>license_file := None\<rparr>)"
  by (simp_all add: build_command_def if_truthy_def)

lemma empty_list_absent:
  "build_command sf self (p\<lparr>task_list := Some []\<rparr>) = build_command sf self (p\<lparr>task_list := None\<rparr>)"
  "build_command sf self (p\<lparr>forced_int_id_prefixes := Some []\<rparr>) = build_command sf self (p\<lparr>forced_int_id_prefixes := None\<rparr>)"
  "build_command sf self (p\<lparr>forced_int_id_suffixes := Some []\<rparr>) = build_command sf self (p\<lparr>forced_int_id_suffixes := None\<rparr>)"
  by (simp_all add: build_command_def if_truthy_list_def)

lemma valid_string_booleans:
  assumes "validate p = Inr q"
  shows "compute_nbrows p \<noteq> Some '''' \<and> drop_tables_if_exists p \<noteq> Some ''''"
proof -
  from assms obtain p1 where "validate_task_list_values p = Inr p1"
    by (auto simp: validate_def split: sum.splits)
  then have "p1 = p"
    by (auto simp: validate_task_list_values_def split: option.splits if_splits)
  with assms \<open>validate_task_list_values p = Inr p1\<close>
  obtain p2 where "validate_string_booleans p = Inr p2"
    by (auto simp: validate_def split: sum.splits)
  then show ?thesis
    by (auto simp: validate_string_booleans_def string_boolean_check_def
             split: option.splits if_splits)
qed

subsection \<open>Masking\<close>

lemma scan_mask_length [simp]: "length (scan_mask xs) = length xs"
  by (induction xs rule: scan_mask.induct) auto

lemma scan_mask_other: "x \<noteq> ''--license'' \<Longrightarrow> scan_mask (x # r) = x # scan_mask r"
  by (cases r) auto

lemma scan_mask_hd: "scan_mask (x # r) ! 0 = x"
  by (cases r) auto

lemma mask_loop_scan:
  "masked < length st \<Longrightarrow> i \<le> length (st ! masked) \<Longrightarrow>
   mask_loop st masked i
     = st[masked := take i (st ! masked) @ scan_mask (drop i (st ! masked))]"
proof (induction st masked i rule: mask_loop.induct)
  case (1 st masked i)
  let ?xs = "st ! masked"
  show ?case
  proof (cases "i < length ?xs")
    case False
    then have "mask_loop st masked i = st"
      by (subst mask_loop.simps) simp
    with False "1.prems" show ?thesis
      by simp
  next
    case True
    then have dr: "drop i ?xs = ?xs ! i # drop (Suc i) ?xs"
      by (simp add: Cons_nth_drop_Suc)
    have tk: "take (Suc i) ?xs = take i ?xs @ [?xs ! i]"
      using True by (simp add: take_Suc_conv_app_nth)
    show ?thesis
    proof (cases "?xs ! i = ''--license'' \<and> i + 1 < length ?xs")
      case w: True
      let ?st' = "set_item st masked (i + 1) ''******''"
      have xs': "?st' ! masked = ?xs[Suc i := ''******'']"
        using "1.prems" by (simp add: set_item_def)
      have dr2: "drop (Suc i) ?xs = ?xs ! Suc i # drop (Suc (Suc i)) ?xs"
        using w by (simp add: Cons_nth_drop_Suc)
      have "mask_loop st masked i = mask_loop ?st' masked (i + 1)"
        using True w by (simp add: mask_loop.simps [of st masked i])
      also have "\<dots> = ?st'[masked := take (i + 1) (?st' ! masked)
                                     @ scan_mask (drop (i + 1) (?st' ! masked))]"
        using "1.IH" [OF True refl] w "1.prems" True by (simp add: set_item_def)
      also have "\<dots> = st[masked := take i ?xs @ scan_mask (drop i ?xs)]"
      proof -
        have t1: "take (Suc i) (?xs[Suc i := ''******'']) = take i ?xs @ [''--license'']"
          using tk w by simp
        have d1: "drop (Suc i) (?xs[Suc i := ''******'']) = ''******'' # drop (Suc (Suc i)) ?xs"
          using dr2 by (simp add: drop_update_swap)
        have s1: "scan_mask (drop i ?xs)
                    = ''--license'' # scan_mask (''******'' # drop (Suc (Suc i)) ?xs)"
          using dr dr2 w by simp
        show ?thesis
          using "1.prems" by (simp add: set_item_def t1 d1 s1)
      qed
      finally show ?thesis .
    next
      case w: False
      have "mask_loop st masked i = mask_loop st masked (i + 1)"
        using True w by (auto simp: mask_loop.simps [of st masked i])
      also have "\<dots> = st[masked := take (i + 1) ?xs @ scan_mask (drop (i + 1) ?xs)]"
      proof -
        have c: "(if ?xs ! i = ''--license'' \<and> i + 1 < length ?xs
                  then set_item st masked (i + 1) ''******'' else st) = st"
          using w by (rule if_not_P)
        show ?thesis
          using "1.IH" [OF True refl, unfolded c] "1.prems" True by simp
      qed
      also have "\<dots> = st[masked := take i ?xs @ scan_mask (drop i ?xs)]"
      proof (cases "?xs ! i = ''--license''")
        case False
        then show ?thesis using dr tk by (simp add: scan_mask_other)
      next
        case l: True
        with w True have "Suc i = length ?xs" by simp
        then have "drop (Suc i) ?xs = []" by simp
        then show ?thesis using dr tk by simp
      qed
      finally show ?thesis .
    qed
  qed
qed

lemma mask_sensitive_eq:
  "command < length st \<Longrightarrow>
   mask_sensitive st command = (st @ [scan_mask (st ! command)], length st)"
  using mask_loop_scan [of "length st" "st @ [st ! command]" 0]
  by (simp add: mask_sensitive_def new_list_def)

lemma scan_mask_nth:
  "j < length xs \<Longrightarrow>
   scan_mask xs ! j
     = (if 0 < j \<and> scan_mask xs ! (j - 1) = ''--license'' then ''******'' else xs ! j)"
proof (induction xs arbitrary: j rule: scan_mask.induct)
  case (1 x y r)
  let ?y = "if x = ''--license'' then ''******'' else y"
  have sc: "scan_mask (x # y # r) = x # scan_mask (?y # r)" by simp
  show ?case
  proof (cases j)
    case 0
    then show ?thesis by simp
  next
    case (Suc k)
    show ?thesis
    proof (cases k)
      case 0
      with Suc show ?thesis by (simp add: scan_mask_hd)
    next
      case (Suc m)
      have ih: "scan_mask (?y # r) ! k
                 = (if 0 < k \<and> scan_mask (?y # r) ! (k - 1) = ''--license'' then ''******''
                    else (?y # r) ! k)"
      proof (cases "x = ''--license''")
        case True
        then show ?thesis using "1.IH"(1) [of k] "1.prems" \<open>j = Suc k\<close> by simp
      next
        case False
        then show ?thesis using "1.IH"(2) [of k] "1.prems" \<open>j = Suc k\<close> by simp
      qed
      show ?thesis using ih \<open>j = Suc k\<close> Suc by (simp del: scan_mask.simps add: sc)
    qed
  qed
qed simp_all

lemma scan_mask_no_license: "''--license'' \<notin> set xs \<Longrightarrow> scan_mask xs = xs"
  by (induction xs rule: scan_mask.induct) auto


lemma validate_required_only:
  "validate (required_only a b c d e f) = Inr (required_only a b c d e f)"
  by (simp add: validate_def validate_task_list_values_def validate_string_booleans_def
                string_boolean_check_def validate_license_mutual_exclusivity_def required_only_def)

lemma str_whole_float_0: "str_whole_float 0 = ''0.0''"
  by (simp add: str_whole_float_def str_int_0)

text \<open>
  C10 (as amended). Presence tests of \<^verbatim>\<open>build_command\<close>, for every parameter set (valid or
  not):
  \<^item> an optional string field tested by truthiness and set to the empty string gives the
    command of the same parameter set with the field absent (nine fields);
  \<^item> an optional list field set to the empty list gives the command with the field absent;
  \<^item> an optional integer field set to \<open>0\<close> inserts its flag followed by the token \<open>0\<close> into
    the command built without the field (seven fields);
  \<^item> a float field that is not \<^verbatim>\<open>None\<close> inserts its flag followed by \<^verbatim>\<open>str\<close> of the value;
    set to zero, that token is \<open>0.0\<close> (three fields);
  \<^item> a string-boolean field that is not \<^verbatim>\<open>None\<close> inserts its flag followed by the string
    as it is, the empty string included; a valid parameter set never has the empty string
    there.
\<close>

theorem C10_presence_tests:
  "(build_command sf self (p\<lparr>source_schema_name := Some ''''\<rparr>) = build_command sf self (p\<lparr>source_schema_name := None\<rparr>)
    \<and> build_command sf self (p\<lparr>target_schema_name := Some ''''\<rparr>) = build_command sf self (p\<lparr>target_schema_name := None\<rparr>)
    \<and> build_command sf self (p\<lparr>resume := Some ''''\<rparr>) = build_command sf self (p\<lparr>resume := None\<rparr>)
    \<and> build_command sf self (p\<lparr>fasttransfer_dir_path := Some ''''\<rparr>) = build_command sf self (p\<lparr>fasttransfer_dir_path := None\<rparr>)
    \<and> build_command sf self (p\<lparr>include_tables := Some ''''\<rparr>) = build_command sf self (p\<lparr>include_tables := None\<rparr>)
    \<and> build_command sf self (p\<lparr>exclude_tables := Some ''''\<rparr>) = build_command sf self (p\<lparr>exclude_tables := None\<rparr>)
    \<and> build_command sf self (p\<lparr>log_dir := Some ''''\<rparr>) = build_command sf self (p\<lparr>log_dir := None\<rparr>)
    \<and> build_command sf self (p\<lparr>license := Some ''''\<rparr>) = build_command sf self (p\<lparr>license := None\<rparr>)
    \<and> build_command sf self (p\<lparr>license_file := Some ''''\<rparr>) = build_command sf self (p\<lparr>license_file := None\<rparr>))
   \<and> (build_command sf self (p\<lparr>task_list := Some []\<rparr>) = build_command sf self (p\<lparr>task_list := None\<rparr>)
    \<and> build_command sf self (p\<lparr>forced_int_id_prefixes := Some []\<rparr>) = build_command sf self (p\<lparr>forced_int_id_prefixes := None\<rparr>)
    \<and> build_command sf self (p\<lparr>forced_int_id_suffixes := Some []\<rparr>) = build_command sf self (p\<lparr>forced_int_id_suffixes := None\<rparr>))
   \<and> (emits [''-p'', ''0''] (build_command sf self (p\<lparr>fasttransfer_p := None\<rparr>)) (build_command sf self (p\<lparr>fasttransfer_p := Some 0\<rparr>))
    \<and> emits [''--ft_large_table_th'', ''0''] (build_command sf self (p\<lparr>ft_large_table_th := None\<rparr>)) (build_command sf self (p\<lparr>ft_large_table_th := Some 0\<rparr>))
    \<and> emits [''--n_jobs'', ''0''] (build_command sf self (p\<lparr>n_jobs := None\<rparr>)) (build_command sf self (p\<lparr>n_jobs := Some 0\<rparr>))
    \<and> emits [''--cci_threshold'', ''0''] (build_command sf self (p\<lparr>cci_threshold := None\<rparr>)) (build_command sf self (p\<lparr>cci_threshold := Some 0\<rparr>))
    \<and> emits [''--aci_threshold'', ''0''] (build_command sf self (p\<lparr>aci_threshold := None\<rparr>)) (build_command sf self (p\<lparr>aci_threshold := Some 0\<rparr>))
    \<and> emits [''-min'', ''0''] (build_command sf self (p\<lparr>min_rows := None\<rparr>)) (build_command sf self (p\<lparr>min_rows := Some 0\<rparr>))
    \<and> emits [''-max'', ''0''] (build_command sf self (p\<lparr>max_rows := None\<rparr>)) (build_command sf self (p\<lparr>max_rows := Some 0\<rparr>)))
   \<and> (emits [''--profiling_sample_pc'', sf x] (build_command sf self (p\<lparr>profiling_sample_pc := None\<rparr>)) (build_command sf self (p\<lparr>profiling_sample_pc := Some x\<rparr>))
    \<and> emits [''--p_query'', sf x] (build_command sf self (p\<lparr>p_query := None\<rparr>)) (build_command sf self (p\<lparr>p_query := Some x\<rparr>))
    \<and> emits [''--min_sample_pc_profile'', sf x] (build_command sf self (p\<lparr>min_sample_pc_profile := None\<rparr>)) (build_command sf self (p\<lparr>min_sample_pc_profile := Some x\<rparr>)))
   \<and> (emits [''--profiling_sample_pc'', ''0.0'']
          (build_command str_whole_float self (q\<lparr>profiling_sample_pc := None\<rparr>))
          (build_command str_whole_float self (q\<lparr>profiling_sample_pc := Some 0\<rparr>))
    \<and> emits [''--p_query'', ''0.0'']
          (build_command str_whole_float self (q\<lparr>p_query := None\<rparr>))
          (build_command str_whole_float self (q\<lparr>p_query := Some 0\<rparr>))
    \<and> emits [''--min_sample_pc_profile'', ''0.0'']
          (build_command str_whole_float self (q\<lparr>min_sample_pc_profile := None\<rparr>))
          (build_command str_whole_float self (q\<lparr>min_sample_pc_profile := Some 0\<rparr>)))
   \<and> (emits [''--compute_nbrows'', s] (build_command sf self (p\<lparr>compute_nbrows := None\<rparr>)) (build_command sf self (p\<lparr>compute_nbrows := Some s\<rparr>))
    \<and> emits [''--drop_tables_if_exists'', s] (build_command sf self (p\<lparr>drop_tables_if_exists := None\<rparr>)) (build_command sf self (p\<lparr>drop_tables_if_exists := Some s\<rparr>)))
   \<and> (validate p = Inr p \<longrightarrow> compute_nbrows p \<noteq> Some '''' \<and> drop_tables_if_exists p \<noteq> Some '''')"
proof (intro conjI impI)
  assume "validate p = Inr p"
  then show "compute_nbrows p \<noteq> Some ''''" "drop_tables_if_exists p \<noteq> Some ''''"
    by (simp_all add: valid_string_booleans)
qed (simp_all only: empty_string_absent empty_list_absent emits_is_not_None
                    emits_int [where n = 0, unfolded str_int_0]
                    emits_is_not_None(3-5) [where sf = str_whole_float and x = 0,
                                             unfolded str_whole_float_0])

theorem C10_presence_tests_witness:
  "validate ((required_only ''auth.json'' ''s'' ''d1'' ''t'' ''d2'' ''m'' :: string MigrationParams)
               \<lparr>compute_nbrows := Some ''true''\<rparr>)
     = Inr ((required_only ''auth.json'' ''s'' ''d1'' ''t'' ''d2'' ''m'')\<lparr>compute_nbrows := Some ''true''\<rparr>)
   \<and> compute_nbrows ((required_only ''auth.json'' ''s'' ''d1'' ''t'' ''d2'' ''m'' :: string MigrationParams)
               \<lparr>compute_nbrows := Some ''true''\<rparr>) \<noteq> Some ''''"
proof -
  let ?p = "(required_only ''auth.json'' ''s'' ''d1'' ''t'' ''d2'' ''m'' :: string MigrationParams)
               \<lparr>compute_nbrows := Some ''true''\<rparr>"
  have v: "validate ?p = Inr ?p"
    by (simp add: validate_def validate_task_list_values_def validate_string_booleans_def
                  string_boolean_check_def validate_license_mutual_exclusivity_def required_only_def)
  from C10_presence_tests [of id "undetected_builder []" ?p] v show ?thesis
    by blast
qed

text \<open>
  The claim as stated fails for the float fields: the parameter set below is valid, its
  \<open>profiling_sample_pc\<close> is the float zero, and the token after the flag is \<open>0.0\<close>, not \<open>0\<close>.
\<close>

theorem C10_counterexample:
  "validate ((required_only ''auth.json'' ''s'' ''d1'' ''t'' ''d2'' ''m'' :: int MigrationParams)
               \<lparr>profiling_sample_pc := Some 0\<rparr>)
     = Inr ((required_only ''auth.json'' ''s'' ''d1'' ''t'' ''d2'' ''m'')\<lparr>profiling_sample_pc := Some 0\<rparr>)
   \<and> build_command str_whole_float (undetected_builder ''MigratorXpress'')
        ((required_only ''auth.json'' ''s'' ''d1'' ''t'' ''d2'' ''m'' :: int MigrationParams)
           \<lparr>profiling_sample_pc := Some 0\<rparr>)
     = [''MigratorXpress'', ''-a'', ''auth.json'', ''--source_db_auth_id'', ''s'',
        ''--source_db_name'', ''d1'', ''--target_db_auth_id'', ''t'',
        ''--target_db_name'', ''d2'', ''--migration_db_auth_id'', ''m'',
        ''--profiling_sample_pc'', ''0.0'']
   \<and> ''0.0'' \<noteq> ''0''"
  by (simp add: validate_def validate_task_list_values_def validate_string_booleans_def
                string_boolean_check_def validate_license_mutual_exclusivity_def required_only_def
                build_command_def if_not_None_def str_whole_float_0)

lemma update_same:
  "task_list p = Some vs \<Longrightarrow> p\<lparr>task_list := Some vs\<rparr> = p"
  "forced_int_id_prefixes p = Some vs \<Longrightarrow> p\<lparr>forced_int_id_prefixes := Some vs\<rparr> = p"
  "forced_int_id_suffixes p = Some vs \<Longrightarrow> p\<lparr>forced_int_id_suffixes := Some vs\<rparr> = p"
  by (cases p, simp)+

text \<open>
  C7 (as amended). When a multi-value field (\<open>task_list\<close>, \<open>forced_int_id_prefixes\<close>,
  \<open>forced_int_id_suffixes\<close>) holds a non-empty list \<open>vs\<close>, the command is the command built
  without the field with one contiguous block inserted: the flag, then every value as its own
  token in the order given. The builder emits the flag once for the field; the number of
  tokens of the command equal to the flag is one plus the occurrences of that text among the
  values and among the tokens of the other fields, so it is exactly one when no value and no
  other token is the flag text.
\<close>

theorem C7_multi_value_block:
  assumes "vs \<noteq> []"
  shows
  "(task_list p = Some vs \<longrightarrow>
      emits (''--task_list'' # vs) (build_command sf self (p\<lparr>task_list := None\<rparr>)) (build_command sf self p)
      \<and> count_list (build_command sf self p) ''--task_list''
          = 1 + count_list vs ''--task_list''
              + count_list (build_command sf self (p\<lparr>task_list := None\<rparr>)) ''--task_list'')
   \<and> (forced_int_id_prefixes p = Some vs \<longrightarrow>
      emits (''--forced_int_id_prefixes'' # vs)
            (build_command sf self (p\<lparr>forced_int_id_prefixes := None\<rparr>)) (build_command sf self p)
      \<and> count_list (build_command sf self p) ''--forced_int_id_prefixes''
          = 1 + count_list vs ''--forced_int_id_prefixes''
              + count_list (build_command sf self (p\<lparr>forced_int_id_prefixes := None\<rparr>)) ''--forced_int_id_prefixes'')
   \<and> (forced_int_id_suffixes p = Some vs \<longrightarrow>
      emits (''--forced_int_id_suffixes'' # vs)
            (build_command sf self (p\<lparr>forced_int_id_suffixes := None\<rparr>)) (build_command sf self p)
      \<and> count_list (build_command sf self p) ''--forced_int_id_suffixes''
          = 1 + count_list vs ''--forced_int_id_suffixes''
              + count_list (build_command sf self (p\<lparr>forced_int_id_suffixes := None\<rparr>)) ''--forced_int_id_suffixes'')"
proof (intro conjI impI)
  assume a: "task_list p = Some vs"
  with emits_list(1) [OF assms, of sf self p]
  show e: "emits (''--task_list'' # vs) (build_command sf self (p\<lparr>task_list := None\<rparr>)) (build_command sf self p)"
    by (simp add: update_same)
  show "count_list (build_command sf self p) ''--task_list''
          = 1 + count_list vs ''--task_list''
              + count_list (build_command sf self (p\<lparr>task_list := None\<rparr>)) ''--task_list''"
    using emits_count [OF e, of "''--task_list''"] by simp
next
  assume a: "forced_int_id_prefixes p = Some vs"
  with emits_list(2) [OF assms, of sf self p]
  show e: "emits (''--forced_int_id_prefixes'' # vs)
            (build_command sf self (p\<lparr>forced_int_id_prefixes := None\<rparr>)) (build_command sf self p)"
    by (simp add: update_same)
  show "count_list (build_command sf self p) ''--forced_int_id_prefixes''
          = 1 + count_list vs ''--forced_int_id_prefixes''
              + count_list (build_command sf self (p\<lparr>forced_int_id_prefixes := None\<rparr>)) ''--forced_int_id_prefixes''"
    using emits_count [OF e, of "''--forced_int_id_prefixes''"] by simp
next
  assume a: "forced_int_id_suffixes p = Some vs"
  with emits_list(3) [OF assms, of sf self p]
  show e: "emits (''--forced_int_id_suffixes'' # vs)
            (build_command sf self (p\<lparr>forced_int_id_suffixes := None\<rparr>)) (build_command sf self p)"
    by (simp add: update_same)
  show "count_list (build_command sf self p) ''--forced_int_id_suffixes''
          = 1 + count_list vs ''--forced_int_id_suffixes''
              + count_list (build_command sf self (p\<lparr>forced_int_id_suffixes := None\<rparr>)) ''--forced_int_id_suffixes''"
    using emits_count [OF e, of "''--forced_int_id_suffixes''"] by simp
qed

text \<open>
  The claim as stated fails where a value is the flag text: the parameter set below is valid
  and its command holds the token \<open>--forced_int_id_prefixes\<close> twice.
\<close>

theorem C7_counterexample:
  "validate ((required_only ''auth.json'' ''s'' ''d1'' ''t'' ''d2'' ''m'' :: string MigrationParams)
               \<lparr>forced_int_id_prefixes := Some [''--forced_int_id_prefixes'']\<rparr>)
     = Inr ((required_only ''auth.json'' ''s'' ''d1'' ''t'' ''d2'' ''m'')
               \<lparr>forced_int_id_prefixes := Some [''--forced_int_id_prefixes'']\<rparr>)
   \<and> build_command id (undetected_builder ''MigratorXpress'')
        ((required_only ''auth.json'' ''s'' ''d1'' ''t'' ''d2'' ''m'' :: string MigrationParams)
               \<lparr>forced_int_id_prefixes := Some [''--forced_int_id_prefixes'']\<rparr>)
     = [''MigratorXpress'', ''-a'', ''auth.json'', ''--source_db_auth_id'', ''s'',
        ''--source_db_name'', ''d1'', ''--target_db_auth_id'', ''t'',
        ''--target_db_name'', ''d2'', ''--migration_db_auth_id'', ''m'',
        ''--forced_int_id_prefixes'', ''--forced_int_id_prefixes'']
   \<and> count_list (build_command id (undetected_builder ''MigratorXpress'')
        ((required_only ''auth.json'' ''s'' ''d1'' ''t'' ''d2'' ''m'' :: string MigrationParams)
               \<lparr>forced_int_id_prefixes := Some [''--forced_int_id_prefixes'']\<rparr>))
        ''--forced_int_id_prefixes'' = 2"
  by (simp add: validate_def validate_task_list_values_def validate_string_booleans_def
                string_boolean_check_def validate_license_mutual_exclusivity_def required_only_def
                build_command_def if_truthy_list_def)

theorem C7_multi_value_block_witness:
  "emits [''--task_list'', ''translate'', ''create'']
     (build_command id (undetected_builder ''MigratorXpress'')
        (required_only ''auth.json'' ''s'' ''d1'' ''t'' ''d2'' ''m'' :: string MigrationParams))
     (build_command id (undetected_builder ''MigratorXpress'')
        ((required_only ''auth.json'' ''s'' ''d1'' ''t'' ''d2'' ''m'' :: string MigrationParams)
           \<lparr>task_list := Some [''translate'', ''create'']\<rparr>))
   \<and> count_list (build_command id (undetected_builder ''MigratorXpress'')
        ((required_only ''auth.json'' ''s'' ''d1'' ''t'' ''d2'' ''m'' :: string MigrationParams)
           \<lparr>task_list := Some [''translate'', ''create'']\<rparr>)) ''--task_list'' = 1"
proof -
  let ?m = "required_only ''auth.json'' ''s'' ''d1'' ''t'' ''d2'' ''m'' :: string MigrationParams"
  let ?p = "?m\<lparr>task_list := Some [''translate'', ''create'']\<rparr>"
  have ne: "[''translate'', ''create''] \<noteq> ([] :: string list)" by simp
  have tl: "task_list ?p = Some [''translate'', ''create'']" by simp
  have upd: "?p\<lparr>task_list := None\<rparr> = ?m" by (simp add: required_only_def)
  have c0: "count_list (build_command id (undetected_builder ''MigratorXpress'') ?m) ''--task_list'' = 0"
    by (simp add: build_command_def required_only_def)
  from C7_multi_value_block [OF ne, of ?p id "undetected_builder ''MigratorXpress''"] tl
  have "emits [''--task_list'', ''translate'', ''create'']
          (build_command id (undetected_builder ''MigratorXpress'') (?p\<lparr>task_list := None\<rparr>))
          (build_command id (undetected_builder ''MigratorXpress'') ?p)"
    and "count_list (build_command id (undetected_builder ''MigratorXpress'') ?p) ''--task_list''
          = 1 + count_list [''translate'', ''create''] ''--task_list''
              + count_list (build_command id (undetected_builder ''MigratorXpress'') (?p\<lparr>task_list := None\<rparr>)) ''--task_list''"
    by blast+
  then show ?thesis
    unfolding upd using c0 by simp
qed

lemma scan_mask_license_kept:
  "j < length xs \<Longrightarrow> scan_mask xs ! j = ''--license'' \<Longrightarrow> xs ! j = ''--license''"
  using scan_mask_nth [of j xs] by (auto split: if_splits)

lemma scan_mask_no_adjacent:
  assumes na: "\<forall>k. Suc k < length xs \<longrightarrow> \<not> (xs ! k = ''--license'' \<and> xs ! Suc k = ''--license'')"
      and j: "j < length xs"
  shows "scan_mask xs ! j = (if 0 < j \<and> xs ! (j - 1) = ''--license'' then ''******'' else xs ! j)"
proof (cases j)
  case 0
  then show ?thesis using scan_mask_nth [OF j] by simp
next
  case (Suc k)
  have k: "k < length xs" using j Suc by simp
  have "scan_mask xs ! k = ''--license'' \<longleftrightarrow> xs ! k = ''--license''"
  proof
    assume "scan_mask xs ! k = ''--license''"
    then show "xs ! k = ''--license''" using scan_mask_license_kept [OF k] by simp
  next
    assume l: "xs ! k = ''--license''"
    show "scan_mask xs ! k = ''--license''"
    proof (cases k)
      case 0
      then show ?thesis using scan_mask_nth [OF k] l by simp
    next
      case (Suc m)
      then have "xs ! m \<noteq> ''--license''" using na k l by auto
      moreover have "m < length xs" using k Suc by simp
      ultimately have "scan_mask xs ! m \<noteq> ''--license''"
        using scan_mask_license_kept by blast
      then show ?thesis using scan_mask_nth [OF k] l Suc by simp
    qed
  qed
  then show ?thesis using scan_mask_nth [OF j] Suc by simp
qed

text \<open>
  What \<^verbatim>\<open>mask_sensitive\<close> computes. It allocates a new list object and leaves every object
  that existed before the call, the argument included, as it was; the new list has the length
  of the argument. Because the loop reads the list it is overwriting, the token at position
  \<open>j\<close> of the new list is the mask exactly when the token before it \<^emph>\<open>in the new list\<close> is
  \<open>--license\<close>: a \<open>--license\<close> token that has itself been overwritten no longer masks the
  token after it.
\<close>

lemma mask_sensitive_result:
  assumes "command < length st"
      and "mask_sensitive st command = (st', masked)"
  shows "masked = length st \<and> masked \<noteq> command \<and> length st' = Suc (length st)
    \<and> (\<forall>a < length st. st' ! a = st ! a)
    \<and> length (st' ! masked) = length (st ! command)
    \<and> (\<forall>j < length (st ! command).
          st' ! masked ! j
            = (if 0 < j \<and> st' ! masked ! (j - 1) = ''--license'' then ''******''
               else st ! command ! j))
    \<and> (''--license'' \<notin> set (st ! command) \<longrightarrow> st' ! masked = st ! command)"
proof -
  from assms have st': "st' = st @ [scan_mask (st ! command)]" and m: "masked = length st"
    by (simp_all add: mask_sensitive_eq)
  have new: "st' ! masked = scan_mask (st ! command)"
    by (simp add: st' m)
  have old: "\<forall>a < length st. st' ! a = st ! a"
    by (simp add: st' nth_append)
  have pos: "\<forall>j < length (st ! command).
          st' ! masked ! j
            = (if 0 < j \<and> st' ! masked ! (j - 1) = ''--license'' then ''******''
               else st ! command ! j)"
    unfolding new using scan_mask_nth [of _ "st ! command"] by blast
  have nol: "''--license'' \<notin> set (st ! command) \<longrightarrow> st' ! masked = st ! command"
    unfolding new by (simp add: scan_mask_no_license)
  have len: "length (st' ! masked) = length (st ! command)"
    unfolding new by simp
  have "masked \<noteq> command" "length st' = Suc (length st)"
    using assms(1) by (simp_all add: m st')
  with m old len pos nol show ?thesis
    by blast
qed

text \<open>
  C4. The claim holds of the copying (lemma \<open>mask_sensitive_result\<close>: a new object, the
  argument untouched, a command without \<open>--license\<close> returned unchanged) but the code breaks
  it, and its own docstring (\<^emph>\<open>Masks the value following --license\<close>), on the masking. The
  parameter set with \<open>log_dir = --license\<close> and \<open>license = SECRET\<close> is valid; its command ends
  with the tokens \<open>--log_dir\<close>, \<open>--license\<close>, \<open>--license\<close>, \<open>SECRET\<close>. Masking overwrites the
  \<open>--license\<close> flag (it follows the value \<open>--license\<close> of \<open>--log_dir\<close>) and, having overwritten
  it, leaves the license key after it in clear.
\<close>

theorem C4_license_key_left_in_clear:
  "validate ((required_only ''auth.json'' ''s'' ''d1'' ''t'' ''d2'' ''m'' :: string MigrationParams)
               \<lparr>log_dir := Some ''--license'', license := Some ''SECRET''\<rparr>)
     = Inr ((required_only ''auth.json'' ''s'' ''d1'' ''t'' ''d2'' ''m'')
               \<lparr>log_dir := Some ''--license'', license := Some ''SECRET''\<rparr>)
   \<and> build_command id (undetected_builder ''MigratorXpress'')
        ((required_only ''auth.json'' ''s'' ''d1'' ''t'' ''d2'' ''m'' :: string MigrationParams)
           \<lparr>log_dir := Some ''--license'', license := Some ''SECRET''\<rparr>)
     = [''MigratorXpress'', ''-a'', ''auth.json'', ''--source_db_auth_id'', ''s'',
        ''--source_db_name'', ''d1'', ''--target_db_auth_id'', ''t'',
        ''--target_db_name'', ''d2'', ''--migration_db_auth_id'', ''m'',
        ''--log_dir'', ''--license'', ''--license'', ''SECRET'']
   \<and> mask_sensitive
        [[''MigratorXpress'', ''-a'', ''auth.json'', ''--source_db_auth_id'', ''s'',
          ''--source_db_name'', ''d1'', ''--target_db_auth_id'', ''t'',
          ''--target_db_name'', ''d2'', ''--migration_db_auth_id'', ''m'',
          ''--log_dir'', ''--license'', ''--license'', ''SECRET'']] 0
     = ([[''MigratorXpress'', ''-a'', ''auth.json'', ''--source_db_auth_id'', ''s'',
          ''--source_db_name'', ''d1'', ''--target_db_auth_id'', ''t'',
          ''--target_db_name'', ''d2'', ''--migration_db_auth_id'', ''m'',
          ''--log_dir'', ''--license'', ''--license'', ''SECRET''],
         [''MigratorXpress'', ''-a'', ''auth.json'', ''--source_db_auth_id'', ''s'',
          ''--source_db_name'', ''d1'', ''--target_db_auth_id'', ''t'',
          ''--target_db_name'', ''d2'', ''--migration_db_auth_id'', ''m'',
          ''--log_dir'', ''--license'', ''******'', ''SECRET'']], 1)
   \<and> mask_sensitive [[''--license'', ''--license'', ''KEY'']] 0
       = ([[''--license'', ''--license'', ''KEY''], [''--license'', ''******'', ''KEY'']], 1)"
proof (intro conjI)
  show "validate ((required_only ''auth.json'' ''s'' ''d1'' ''t'' ''d2'' ''m'' :: string MigrationParams)
               \<lparr>log_dir := Some ''--license'', license := Some ''SECRET''\<rparr>)
     = Inr ((required_only ''auth.json'' ''s'' ''d1'' ''t'' ''d2'' ''m'')
               \<lparr>log_dir := Some ''--license'', license := Some ''SECRET''\<rparr>)"
    by (simp add: validate_def validate_task_list_values_def validate_string_booleans_def
                  string_boolean_check_def validate_license_mutual_exclusivity_def required_only_def)
  show "build_command id (undetected_builder ''MigratorXpress'')
        ((required_only ''auth.json'' ''s'' ''d1'' ''t'' ''d2'' ''m'' :: string MigrationParams)
           \<lparr>log_dir := Some ''--license'', license := Some ''SECRET''\<rparr>)
     = [''MigratorXpress'', ''-a'', ''auth.json'', ''--source_db_auth_id'', ''s'',
        ''--source_db_name'', ''d1'', ''--target_db_auth_id'', ''t'',
        ''--target_db_name'', ''d2'', ''--migration_db_auth_id'', ''m'',
        ''--log_dir'', ''--license'', ''--license'', ''SECRET'']"
    by (simp add: build_command_def required_only_def if_truthy_def)
  show "mask_sensitive
        [[''MigratorXpress'', ''-a'', ''auth.json'', ''--source_db_auth_id'', ''s'',
          ''--source_db_name'', ''d1'', ''--target_db_auth_id'', ''t'',
          ''--target_db_name'', ''d2'', ''--migration_db_auth_id'', ''m'',
          ''--log_dir'', ''--license'', ''--license'', ''SECRET'']] 0
     = ([[''MigratorXpress'', ''-a'', ''auth.json'', ''--source_db_auth_id'', ''s'',
          ''--source_db_name'', ''d1'', ''--target_db_auth_id'', ''t'',
          ''--target_db_name'', ''d2'', ''--migration_db_auth_id'', ''m'',
          ''--log_dir'', ''--license'', ''--license'', ''SECRET''],
         [''MigratorXpress'', ''-a'', ''auth.json'', ''--source_db_auth_id'', ''s'',
          ''--source_db_name'', ''d1'', ''--target_db_auth_id'', ''t'',
          ''--target_db_name'', ''d2'', ''--migration_db_auth_id'', ''m'',
          ''--log_dir'', ''--license'', ''******'', ''SECRET'']], 1)"
    by code_simp
  show "mask_sensitive [[''--license'', ''--license'', ''KEY'']] 0
       = ([[''--license'', ''--license'', ''KEY''], [''--license'', ''******'', ''KEY'']], 1)"
    by (simp add: mask_sensitive_def new_list_def mask_loop.simps set_item_def Let_def)
qed

subsection \<open>Capability resolution\<close>

lemma version_le_tuple: "version_le a b \<longleftrightarrow> version_tuple a \<le> version_tuple b"
  by (auto simp: version_le_def version_lt_def version_eq_def)

lemma parse_0_6_24: "parse ''0.6.24'' = Inr \<lparr>major = 0, minor = 6, patch = 24\<rparr>"
  by (simp add: parse_def strip_def is_space_def match_triple_def digits1_def dot_def
                is_digit_def int_of_digits_def)

lemma sorted_versions_registry:
  "sorted_versions VERSION_REGISTRY
     = Inr [(\<lparr>major = 0, minor = 6, patch = 24\<rparr>, snd (hd VERSION_REGISTRY))]"
  by (simp add: sorted_versions_def VERSION_REGISTRY_def parse_0_6_24)

lemma parse_items_set:
  "parse_items registry = Inr items \<Longrightarrow>
   set items = {(v, c). \<exists>k. (k, c) \<in> set registry \<and> parse k = Inr v}"
proof (induction registry arbitrary: items)
  case Nil
  then show ?case by simp
next
  case (Cons kv kvs)
  obtain k c where kv: "kv = (k, c)" by (cases kv)
  from Cons.prems kv obtain v rest where
    p: "parse k = Inr v" and r: "parse_items kvs = Inr rest" and i: "items = (v, c) # rest"
    by (auto split: sum.splits)
  from Cons.IH [OF r] show ?case
    unfolding i kv using p by auto
qed

lemma sorted_versions_sorted:
  "sorted_versions registry = Inr svs \<Longrightarrow> sorted (map (\<lambda>x. version_tuple (fst x)) svs)"
  by (auto simp: sorted_versions_def split: sum.splits)

lemma sorted_versions_set:
  "sorted_versions registry = Inr svs \<Longrightarrow>
   set svs = {(v, c). \<exists>k. (k, c) \<in> set registry \<and> parse k = Inr v}"
  by (auto simp: sorted_versions_def parse_items_set split: sum.splits)

lemma best_loop_filter:
  "sorted (map (\<lambda>x. version_tuple (fst x)) svs) \<Longrightarrow>
   best_loop svs d best
     = (if filter (\<lambda>e. version_le (fst e) d) svs = [] then best
        else Some (snd (last (filter (\<lambda>e. version_le (fst e) d) svs))))"
proof (induction svs arbitrary: best)
  case Nil
  then show ?case by simp
next
  case (Cons x svs)
  obtain ver caps where x: "x = (ver, caps)" by (cases x)
  from Cons.prems have s: "sorted (map (\<lambda>x. version_tuple (fst x)) svs)"
    and ge: "\<forall>e \<in> set svs. version_tuple ver \<le> version_tuple (fst e)"
    by (auto simp: x)
  show ?case
  proof (cases "version_le ver d")
    case True
    then show ?thesis using Cons.IH [OF s, of "Some caps"] by (simp add: x)
  next
    case False
    then have "\<forall>e \<in> set svs. \<not> version_le (fst e) d"
      using ge by (auto simp: version_le_tuple)
    then have "filter (\<lambda>e. version_le (fst e) d) svs = []"
      by (simp add: filter_empty_conv)
    with False show ?thesis by (simp add: x)
  qed
qed

lemma last_sorted_greatest:
  "sorted (map (\<lambda>x. version_tuple (fst x)) svs) \<Longrightarrow> svs \<noteq> [] \<Longrightarrow>
   \<forall>e \<in> set svs. version_le (fst e) (fst (last svs))"
proof (induction svs)
  case Nil
  then show ?case by simp
next
  case (Cons x svs)
  show ?case
  proof (cases "svs = []")
    case True
    then show ?thesis by (simp add: version_le_tuple)
  next
    case False
    with Cons have ih: "\<forall>e \<in> set svs. version_le (fst e) (fst (last svs))" by simp
    from False have "last svs \<in> set svs" by simp
    with Cons.prems have "version_tuple (fst x) \<le> version_tuple (fst (last svs))" by simp
    with ih False show ?thesis by (simp add: version_le_tuple)
  qed
qed

lemma latest_entry_last:
  assumes "sorted (map (\<lambda>x. version_tuple (fst x)) svs)" and "svs \<noteq> []"
  shows "latest_entry svs (snd (last svs))"
  unfolding latest_entry_def
  using last_sorted_greatest [OF assms] assms(2)
  by (intro bexI [of _ "last svs"]) simp_all

lemma greatest_entry_filter:
  assumes s: "sorted (map (\<lambda>x. version_tuple (fst x)) svs)"
      and ne: "filter (\<lambda>e. version_le (fst e) d) svs \<noteq> []"
  shows "greatest_entry_le svs d (snd (last (filter (\<lambda>e. version_le (fst e) d) svs)))"
proof -
  let ?f = "filter (\<lambda>e. version_le (fst e) d) svs"
  have sf: "sorted (map (\<lambda>x. version_tuple (fst x)) ?f)"
    using s by (simp add: sorted_filter)
  have l: "last ?f \<in> set ?f" using ne by (rule last_in_set)
  then have l1: "last ?f \<in> set svs" and l2: "version_le (fst (last ?f)) d" by auto
  have "\<forall>e' \<in> set svs. version_le (fst e') d \<longrightarrow> version_le (fst e') (fst (last ?f))"
    using last_sorted_greatest [OF sf ne] by auto
  with l1 l2 show ?thesis
    unfolding greatest_entry_le_def by (intro bexI [of _ "last ?f"]) simp_all
qed

lemma detect_done: "detection_done (snd (detect decode outcome self))"
  by (auto simp: detect_def Let_def split: run_outcome.splits run_result.splits option.splits)

text \<open>
  C2. Let \<open>svs\<close> be the sorted list built from a registry whose keys all parse (the fixed
  registry is one), and let \<^verbatim>\<open>capabilities\<close> return \<open>c\<close> and leave the detector \<open>self'\<close>
  (detection has run by then, on this call if it had not before). If the registry is empty,
  \<open>c\<close> is the capability set whose seven identifier sets are empty. Otherwise, when a version
  was detected and some registry version is less than or equal to it, \<open>c\<close> is the entry of a
  greatest such registry version; when none is (the detected version is older than every
  entry), or when detection gave \<^verbatim>\<open>None\<close>, \<open>c\<close> is the entry of a greatest registry version.
\<close>

theorem C2_capabilities_resolution:
  assumes "sorted_versions registry = Inr svs"
      and "capabilities svs decode outcome self = (c, self')"
  shows "set svs = {(v, c). \<exists>k. (k, c) \<in> set registry \<and> parse k = Inr v}
    \<and> self' = (if detection_done self then self else snd (detect decode outcome self))
    \<and> detection_done self'
    \<and> (svs = [] \<longrightarrow>
          c = empty_capabilities
          \<and> source_databases c = {} \<and> target_databases c = {} \<and> migration_db_types c = {}
          \<and> tasks c = {} \<and> fk_modes c = {} \<and> migration_db_modes c = {} \<and> load_modes c = {})
    \<and> (svs \<noteq> [] \<longrightarrow>
          (case detected_version self' of
             None \<Rightarrow> latest_entry svs c
           | Some d \<Rightarrow>
               if \<exists>e \<in> set svs. version_le (fst e) d then greatest_entry_le svs d c
               else latest_entry svs c))"
proof -
  let ?self1 = "if detection_done self then self else snd (detect decode outcome self)"
  have s: "sorted (map (\<lambda>x. version_tuple (fst x)) svs)"
    using assms(1) by (rule sorted_versions_sorted)
  have self': "self' = ?self1"
    using assms(2) by (auto simp: capabilities_def Let_def split: if_splits option.splits)
  have dd: "detection_done self'"
    unfolding self' by (simp add: detect_done)
  have empty: "svs = [] \<longrightarrow> c = empty_capabilities"
    using assms(2) by (auto simp: capabilities_def Let_def)
  have res: "svs \<noteq> [] \<longrightarrow>
          (case detected_version self' of
             None \<Rightarrow> latest_entry svs c
           | Some d \<Rightarrow>
               if \<exists>e \<in> set svs. version_le (fst e) d then greatest_entry_le svs d c
               else latest_entry svs c)"
  proof
    assume ne: "svs \<noteq> []"
    show "case detected_version self' of
             None \<Rightarrow> latest_entry svs c
           | Some d \<Rightarrow>
               if \<exists>e \<in> set svs. version_le (fst e) d then greatest_entry_le svs d c
               else latest_entry svs c"
    proof (cases "detected_version self'")
      case None
      then have "c = snd (last svs)"
        using assms(2) ne unfolding self' by (auto simp: capabilities_def Let_def split: if_splits)
      then show ?thesis using None latest_entry_last [OF s ne] by simp
    next
      case (Some d)
      let ?f = "filter (\<lambda>e. version_le (fst e) d) svs"
      have c: "c = (case best_loop svs d None of Some best \<Rightarrow> best | None \<Rightarrow> snd (last svs))"
        using assms(2) ne Some unfolding self'
        by (auto simp: capabilities_def Let_def split: if_splits option.splits)
      show ?thesis
      proof (cases "\<exists>e \<in> set svs. version_le (fst e) d")
        case True
        then have fne: "?f \<noteq> []" by (simp add: filter_empty_conv)
        then have "c = snd (last ?f)" using c best_loop_filter [OF s, of d None] by simp
        then show ?thesis using Some True greatest_entry_filter [OF s fne] by simp
      next
        case False
        then have "?f = []" by (simp add: filter_empty_conv)
        then have "c = snd (last svs)" using c best_loop_filter [OF s, of d None] by simp
        then show ?thesis using Some False latest_entry_last [OF s ne] by simp
      qed
    qed
  qed
  from empty have empty2: "svs = [] \<longrightarrow>
          c = empty_capabilities
          \<and> source_databases c = {} \<and> target_databases c = {} \<and> migration_db_types c = {}
          \<and> tasks c = {} \<and> fk_modes c = {} \<and> migration_db_modes c = {} \<and> load_modes c = {}"
    by (simp add: empty_capabilities_def)
  from sorted_versions_set [OF assms(1)] self' dd empty2 res show ?thesis
    by blast
qed


theorem C2_capabilities_resolution_witness:
  "sorted_versions VERSION_REGISTRY
     = Inr [(\<lparr>major = 0, minor = 6, patch = 24\<rparr>, snd (hd VERSION_REGISTRY))]
   \<and> capabilities [(\<lparr>major = 0, minor = 6, patch = 24\<rparr>, snd (hd VERSION_REGISTRY))]
        ascii_text TimeoutExpired
        \<lparr>detector_binary_path = ''MigratorXpress'',
         detected_version = Some \<lparr>major = 1, minor = 0, patch = 0\<rparr>, detection_done = True\<rparr>
     = (snd (hd VERSION_REGISTRY),
        \<lparr>detector_binary_path = ''MigratorXpress'',
         detected_version = Some \<lparr>major = 1, minor = 0, patch = 0\<rparr>, detection_done = True\<rparr>)
   \<and> greatest_entry_le [(\<lparr>major = 0, minor = 6, patch = 24\<rparr>, snd (hd VERSION_REGISTRY))]
        \<lparr>major = 1, minor = 0, patch = 0\<rparr> (snd (hd VERSION_REGISTRY))"
proof -
  let ?svs = "[(\<lparr>major = 0, minor = 6, patch = 24\<rparr>, snd (hd VERSION_REGISTRY))]"
  let ?d = "\<lparr>detector_binary_path = ''MigratorXpress'',
             detected_version = Some \<lparr>major = 1, minor = 0, patch = 0\<rparr>, detection_done = True\<rparr>"
  have le: "version_le \<lparr>major = 0, minor = 6, patch = 24\<rparr> \<lparr>major = 1, minor = 0, patch = 0\<rparr>"
    by (simp add: version_le_def version_lt_def version_eq_def version_tuple_def less_prod_def)
  have h2: "capabilities ?svs ascii_text TimeoutExpired ?d = (snd (hd VERSION_REGISTRY), ?d)"
    using le by (simp add: capabilities_def)
  from C2_capabilities_resolution [OF sorted_versions_registry h2] le
  have "greatest_entry_le ?svs \<lparr>major = 1, minor = 0, patch = 0\<rparr> (snd (hd VERSION_REGISTRY))"
    by simp
  with sorted_versions_registry h2 show ?thesis by blast
qed

subsection \<open>Execution and the confirmation gate\<close>

lemma str_int_3600: "str_int 3600 = ''3600''"
  by (simp add: str_int_def str_nat.simps)

lemma ascii_text_plain:
  "ascii_text [] = Inr []"
  "ascii_text ''done'' = Inr ''done''"
  "ascii_text ''Connection failed'' = Inr ''Connection failed''"
  by (simp_all add: ascii_text_def)

lemma ascii_text_0xff:
  "ascii_text [CHR 0xFF]
     = Inl ([CHR 0x27] @ ''ascii'' @ [CHR 0x27] @ '' codec can'' @ [CHR 0x27]
            @ ''t decode byte 0xff in position 0: ordinal not in range(128)'')"
  by (simp add: ascii_text_def hex2_def str_nat.simps)

lemmas ascii_text_examples = ascii_text_plain ascii_text_0xff

text \<open>
  C5 (as amended). \<^verbatim>\<open>execute_command\<close> returns the triple \<open>(return_code, stdout, stderr)\<close>
  whenever the process exits, whatever the return code, and both captured streams decode as
  text. It raises the timeout error, whose message carries the configured timeout, when the
  process runs past the timeout, and the failure error, whose message carries the cause, on
  every other failure of the run: when starting the process fails, and also when the process
  has exited (with any return code) but its output does not decode. It raises in these
  situations only, and in them returns no triple.
\<close>

theorem C5_execute_command_results:
  "(outcome = Completed rc out_bytes err_bytes \<and> decode out_bytes = Inr out \<and> decode err_bytes = Inr err \<longrightarrow>
      fst (execute_command decode outcome fs_ok self w command timeout log_directory)
        = Inr (rc, out, err))
   \<and> (outcome = Completed rc out_bytes err_bytes
        \<and> (decode out_bytes = Inl cause \<or> (decode out_bytes = Inr out \<and> decode err_bytes = Inl cause)) \<longrightarrow>
      fst (execute_command decode outcome fs_ok self w command timeout log_directory)
        = Inl (MigratorXpressError (''Execution failed: '' @ cause)))
   \<and> (outcome = TimeoutExpired \<longrightarrow>
      fst (execute_command decode outcome fs_ok self w command timeout log_directory)
        = Inl (MigratorXpressError (''Execution timed out after '' @ str_int timeout @ '' seconds'')))
   \<and> (outcome = FileNotFoundError cause \<or> outcome = OtherException cause \<longrightarrow>
      fst (execute_command decode outcome fs_ok self w command timeout log_directory)
        = Inl (MigratorXpressError (''Execution failed: '' @ cause)))
   \<and> ((\<exists>e. fst (execute_command decode outcome fs_ok self w command timeout log_directory) = Inl e)
        \<longleftrightarrow> outcome = TimeoutExpired
            \<or> (\<exists>c. outcome = FileNotFoundError c \<or> outcome = OtherException c)
            \<or> (\<exists>r ob eb. outcome = Completed r ob eb \<and> (isl (decode ob) \<or> isl (decode eb))))
   \<and> ((\<exists>t. fst (execute_command decode outcome fs_ok self w command timeout log_directory) = Inr t)
        \<longleftrightarrow> (\<exists>r ob eb. outcome = Completed r ob eb \<and> \<not> isl (decode ob) \<and> \<not> isl (decode eb)))"
proof (cases outcome)
  case (Completed r ob eb)
  show ?thesis
  proof (cases "decode ob")
    case (Inl m)
    with Completed show ?thesis by (auto simp: execute_command_def run_text_def Let_def)
  next
    case o: (Inr so)
    show ?thesis
    proof (cases "decode eb")
      case (Inl m)
      with Completed o show ?thesis by (auto simp: execute_command_def run_text_def Let_def)
    next
      case (Inr se)
      with Completed o show ?thesis by (auto simp: execute_command_def run_text_def Let_def)
    qed
  qed
qed (auto simp: execute_command_def Let_def)

theorem C5_execute_command_results_witness:
  "fst (execute_command ascii_text (Completed 1 [] ''Connection failed'') True
          (undetected_builder ''MigratorXpress'') \<lparr>runs = [], logs = []\<rparr>
          [''MigratorXpress'', ''--help''] 3600 None)
     = Inr (1, [], ''Connection failed'')
   \<and> fst (execute_command ascii_text TimeoutExpired True
          (undetected_builder ''MigratorXpress'') \<lparr>runs = [], logs = []\<rparr>
          [''MigratorXpress'', ''--help''] 3600 None)
     = Inl (MigratorXpressError ''Execution timed out after 3600 seconds'')
   \<and> fst (execute_command ascii_text (OtherException ''Permission denied'') True
          (undetected_builder ''MigratorXpress'') \<lparr>runs = [], logs = []\<rparr>
          [''MigratorXpress'', ''--help''] 3600 None)
     = Inl (MigratorXpressError ''Execution failed: Permission denied'')"
  using C5_execute_command_results
          [where outcome = "Completed 1 [] ''Connection failed''" and rc = 1 and out_bytes = "[]"
             and err_bytes = "''Connection failed''" and decode = ascii_text and out = "[]"
             and err = "''Connection failed''" and fs_ok = True
             and self = "undetected_builder ''MigratorXpress''" and w = "\<lparr>runs = [], logs = []\<rparr>"
             and command = "[''MigratorXpress'', ''--help'']" and timeout = 3600
             and log_directory = None]
        C5_execute_command_results
          [where outcome = TimeoutExpired and decode = ascii_text and fs_ok = True
             and self = "undetected_builder ''MigratorXpress''" and w = "\<lparr>runs = [], logs = []\<rparr>"
             and command = "[''MigratorXpress'', ''--help'']" and timeout = 3600
             and log_directory = None]
        C5_execute_command_results
          [where outcome = "OtherException ''Permission denied''" and decode = ascii_text
             and fs_ok = True and cause = "''Permission denied''"
             and self = "undetected_builder ''MigratorXpress''" and w = "\<lparr>runs = [], logs = []\<rparr>"
             and command = "[''MigratorXpress'', ''--help'']" and timeout = 3600
             and log_directory = None]
  by (simp add: str_int_3600 ascii_text_examples)

text \<open>
  The claim as stated fails on a process that exits normally with output that does not
  decode: here the process exits with return code \<open>0\<close> after writing the byte \<open>0xff\<close> to its
  standard output, the locale encoding is ASCII, and \<^verbatim>\<open>execute_command\<close> raises the failure
  error instead of returning the triple.
\<close>

theorem C5_counterexample:
  "fst (execute_command ascii_text (Completed 0 [CHR 0xFF] []) True
          (undetected_builder ''MigratorXpress'') \<lparr>runs = [], logs = []\<rparr>
          [''MigratorXpress'', ''--help''] 3600 None)
     = Inl (MigratorXpressError
              (''Execution failed: '' @ [CHR 0x27] @ ''ascii'' @ [CHR 0x27] @ '' codec can''
               @ [CHR 0x27] @ ''t decode byte 0xff in position 0: ordinal not in range(128)''))"
  by (simp add: execute_command_def run_text_def ascii_text_examples Let_def)

lemma handler_blocked:
  "\<not> truthy nonzero (dict_get arguments ''confirmation'' (JBool False)) \<Longrightarrow>
   handle_execute_command nonzero shlex_split decode outcome fs_ok cfg command_builder w arguments
     = (Inr (case command_builder of None \<Rightarrow> binary_missing_message | Some cb \<Rightarrow> blocked_message), w)"
  by (simp add: handle_execute_command_def split: option.splits)

lemma handler_world_changed:
  assumes "snd (handle_execute_command nonzero shlex_split decode outcome fs_ok cfg command_builder w arguments) \<noteq> w"
  shows "truthy nonzero (dict_get arguments ''confirmation'' (JBool False)) \<and> command_builder \<noteq> None"
proof (rule ccontr)
  assume "\<not> (truthy nonzero (dict_get arguments ''confirmation'' (JBool False)) \<and> command_builder \<noteq> None)"
  then have "snd (handle_execute_command nonzero shlex_split decode outcome fs_ok cfg command_builder w arguments) = w"
    by (auto simp: handle_execute_command_def split: option.splits)
  with assms show False by simp
qed

text \<open>
  C6 (as amended). When the \<open>confirmation\<close> argument is absent or falsy, the handler runs
  nothing (the world is left as it was) and replies with the safety message
  \<open>blocked_message\<close> if the command builder exists, with the binary-not-found error if it
  does not. When the \<open>confirmation\<close> argument is a boolean and a call changes the world at all
  (a process was run, a log written), the boolean is true and the builder exists.
\<close>

theorem C6_confirmation_gate:
  "((case map_of arguments ''confirmation'' of None \<Rightarrow> True | Some v \<Rightarrow> \<not> truthy nonzero v) \<longrightarrow>
      handle_execute_command nonzero shlex_split decode outcome fs_ok cfg command_builder w arguments
        = (Inr (case command_builder of
                  None \<Rightarrow> binary_missing_message
                | Some cb \<Rightarrow> blocked_message), w))
   \<and> (map_of arguments ''confirmation'' = Some (JBool b)
        \<and> snd (handle_execute_command nonzero shlex_split decode outcome fs_ok cfg command_builder w arguments) \<noteq> w
        \<longrightarrow> b \<and> command_builder \<noteq> None)"
proof (intro conjI impI)
  assume "case map_of arguments ''confirmation'' of None \<Rightarrow> True | Some v \<Rightarrow> \<not> truthy nonzero v"
  then have "\<not> truthy nonzero (dict_get arguments ''confirmation'' (JBool False))"
    by (auto simp: dict_get_def split: option.splits)
  then show "handle_execute_command nonzero shlex_split decode outcome fs_ok cfg command_builder w arguments
        = (Inr (case command_builder of
                  None \<Rightarrow> binary_missing_message
                | Some cb \<Rightarrow> blocked_message), w)"
    by (rule handler_blocked)
next
  assume a: "map_of arguments ''confirmation'' = Some (JBool b)
        \<and> snd (handle_execute_command nonzero shlex_split decode outcome fs_ok cfg command_builder w arguments) \<noteq> w"
  then have "truthy nonzero (dict_get arguments ''confirmation'' (JBool False))"
    and c: "command_builder \<noteq> None"
    using handler_world_changed by blast+
  with a show "b" by (simp add: dict_get_def)
  show "command_builder \<noteq> None" by (rule c)
qed

theorem C6_confirmation_gate_witness:
  "handle_execute_command id plain_split ascii_text (Completed 0 ''done'' []) True
     \<lparr>MIGRATORXPRESS_PATH = ''MigratorXpress'', MIGRATORXPRESS_TIMEOUT = 3600,
      MIGRATORXPRESS_LOG_DIR = ''logs''\<rparr>
     (Some (undetected_builder ''MigratorXpress'')) \<lparr>runs = [], logs = []\<rparr>
     [(''command'', JStr ''MigratorXpress -a auth.json''), (''confirmation'', JBool False)]
   = (Inr blocked_message, \<lparr>runs = [], logs = []\<rparr>)
   \<and> runs (snd (handle_execute_command id plain_split ascii_text (Completed 0 ''done'' []) True
     \<lparr>MIGRATORXPRESS_PATH = ''MigratorXpress'', MIGRATORXPRESS_TIMEOUT = 3600,
      MIGRATORXPRESS_LOG_DIR = ''logs''\<rparr>
     (Some (undetected_builder ''MigratorXpress'')) \<lparr>runs = [], logs = []\<rparr>
     [(''command'', JStr ''MigratorXpress -a auth.json''), (''confirmation'', JBool True)]))
   = [[''MigratorXpress'', ''-a'', ''auth.json'']]"
proof -
  let ?cfg = "\<lparr>MIGRATORXPRESS_PATH = ''MigratorXpress'', MIGRATORXPRESS_TIMEOUT = 3600,
      MIGRATORXPRESS_LOG_DIR = ''logs''\<rparr>"
  let ?no = "[(''command'', JStr ''MigratorXpress -a auth.json''), (''confirmation'', JBool False)]"
  have h: "case map_of ?no ''confirmation'' of None \<Rightarrow> True | Some v \<Rightarrow> \<not> truthy id v"
    by simp
  have r: "runs (snd (handle_execute_command id plain_split ascii_text (Completed 0 ''done'' []) True ?cfg
             (Some (undetected_builder ''MigratorXpress'')) \<lparr>runs = [], logs = []\<rparr>
             [(''command'', JStr ''MigratorXpress -a auth.json''), (''confirmation'', JBool True)]))
           = [[''MigratorXpress'', ''-a'', ''auth.json'']]"
    by (simp add: handle_execute_command_def dict_get_def plain_split_def is_space_def
                  execute_command_def run_text_def ascii_text_examples save_execution_log_def Let_def)
  from C6_confirmation_gate [where arguments = ?no and nonzero = id and shlex_split = plain_split
         and decode = ascii_text
         and outcome = "Completed 0 ''done'' []" and fs_ok = True and cfg = ?cfg
         and command_builder = "Some (undetected_builder ''MigratorXpress'')"
         and w = "\<lparr>runs = [], logs = []\<rparr>"] h r
  show ?thesis by simp
qed

text \<open>
  The claim as stated fails in two ways. When the builder could not be initialised, the check
  of \<^verbatim>\<open>command_builder is None\<close> comes first and a request without confirmation gets the
  binary-not-found error, not the safety message. And the gate tests the truth value of the
  argument, not that it is \<^verbatim>\<open>true\<close>: with the string \<open>false\<close> as confirmation the command
  is run, against the handler's own \<^emph>\<open>Must be true to execute\<close>.
\<close>

theorem C6_counterexample:
  "handle_execute_command id plain_split ascii_text (Completed 0 ''done'' []) True
     \<lparr>MIGRATORXPRESS_PATH = ''MigratorXpress'', MIGRATORXPRESS_TIMEOUT = 3600,
      MIGRATORXPRESS_LOG_DIR = ''logs''\<rparr>
     None \<lparr>runs = [], logs = []\<rparr>
     [(''command'', JStr ''MigratorXpress -a auth.json''), (''confirmation'', JBool False)]
   = (Inr ''Error: MigratorXpress binary not found. Please check MIGRATORXPRESS_PATH.'',
      \<lparr>runs = [], logs = []\<rparr>)
   \<and> ''Error: MigratorXpress binary not found. Please check MIGRATORXPRESS_PATH.'' \<noteq> blocked_message
   \<and> runs (snd (handle_execute_command id plain_split ascii_text (Completed 0 ''done'' []) True
        \<lparr>MIGRATORXPRESS_PATH = ''MigratorXpress'', MIGRATORXPRESS_TIMEOUT = 3600,
         MIGRATORXPRESS_LOG_DIR = ''logs''\<rparr>
        (Some (undetected_builder ''MigratorXpress'')) \<lparr>runs = [], logs = []\<rparr>
        [(''command'', JStr ''MigratorXpress -a auth.json''), (''confirmation'', JStr ''false'')]))
     = [[''MigratorXpress'', ''-a'', ''auth.json'']]"
proof (intro conjI)
  show "handle_execute_command id plain_split ascii_text (Completed 0 ''done'' []) True
     \<lparr>MIGRATORXPRESS_PATH = ''MigratorXpress'', MIGRATORXPRESS_TIMEOUT = 3600,
      MIGRATORXPRESS_LOG_DIR = ''logs''\<rparr>
     None \<lparr>runs = [], logs = []\<rparr>
     [(''command'', JStr ''MigratorXpress -a auth.json''), (''confirmation'', JBool False)]
   = (Inr ''Error: MigratorXpress binary not found. Please check MIGRATORXPRESS_PATH.'',
      \<lparr>runs = [], logs = []\<rparr>)"
    by (simp add: handle_execute_command_def binary_missing_message_def)
  show "''Error: MigratorXpress binary not found. Please check MIGRATORXPRESS_PATH.'' \<noteq> blocked_message"
    by (simp add: blocked_message_def)
  show "runs (snd (handle_execute_command id plain_split ascii_text (Completed 0 ''done'' []) True
        \<lparr>MIGRATORXPRESS_PATH = ''MigratorXpress'', MIGRATORXPRESS_TIMEOUT = 3600,
         MIGRATORXPRESS_LOG_DIR = ''logs''\<rparr>
        (Some (undetected_builder ''MigratorXpress'')) \<lparr>runs = [], logs = []\<rparr>
        [(''command'', JStr ''MigratorXpress -a auth.json''), (''confirmation'', JStr ''false'')]))
     = [[''MigratorXpress'', ''-a'', ''auth.json'']]"
    by (simp add: handle_execute_command_def dict_get_def plain_split_def is_space_def
                  execute_command_def run_text_def ascii_text_examples save_execution_log_def Let_def)
qed

subsection \<open>The preview handler and the compatibility check\<close>

lemma masked_tokens_scan: "masked_tokens command = scan_mask command"
  using mask_sensitive_eq [of 0 "[command]"] by (simp add: masked_tokens_def)

lemma build_command_not_empty: "build_command sf self params \<noteq> []"
  by (simp add: build_command_def)

lemma build_command_detector:
  "build_command sf (self\<lparr>version_detector := d\<rparr>) params = build_command sf self params"
  by (simp add: build_command_def)

lemma format_command_display_ok:
  assumes "command \<noteq> []"
  shows "\<exists>display. format_command_display self command True = Inr display"
proof -
  have "length (scan_mask command) = length command" by simp
  with assms have "scan_mask command \<noteq> []" by (metis length_0_conv)
  then obtain b rest where "scan_mask command = b # rest" by (cases "scan_mask command") auto
  then show ?thesis by (simp add: format_command_display_def masked_tokens_scan)
qed

lemma preview_valid:
  assumes "MigrationParams_of_arguments coerce arguments = Inr params"
      and "capabilities svs decode probe (version_detector cb) = (caps, det)"
      and "format_command_display (cb\<lparr>version_detector := det\<rparr>) (build_command sf cb params) True
             = Inr display"
  shows "handle_preview_command chk coerce sf svs decode probe cfg (Some cb) arguments
     = (Inr (join nl (preview_response (build_command_explanation params)
                        (chk arguments caps (detected_version det)) display
                        (build_command sf cb params))),
        Some (cb\<lparr>version_detector := det\<rparr>))"
  using assms by (simp add: handle_preview_command_def build_command_detector)

lemma preview_invalid:
  assumes "cbo = None \<or> (\<exists>e. MigrationParams_of_arguments coerce arguments = Inl e)"
  shows "handle_preview_command chk coerce sf svs decode probe cfg cbo arguments
           = handle_preview_command chk' coerce sf svs decode probe cfg cbo arguments"
  using assms by (auto simp: handle_preview_command_def split: option.splits)

text \<open>
  C3. The compatibility check is a function from the raw request, the capabilities and the
  detected version to a list of warning strings; the preview handler calls it after
  validation and uses its result only for the warnings section of the reply. Whatever the
  check returns (\<open>chk\<close> is any such function, \<open>check_version_compatibility\<close> the modelled one):
  the builder left by the handler is the same; without a builder or with invalid parameters
  the whole reply is the same; and for valid parameters the command is built, it is
  \<open>build_command\<close> of the validated parameters, and the reply differs only in the warnings
  handed to \<open>preview_response\<close>.
\<close>

theorem C3_check_is_advisory:
  "snd (handle_preview_command chk coerce sf svs decode probe cfg cbo arguments)
     = snd (handle_preview_command check_version_compatibility coerce sf svs decode probe cfg cbo arguments)
   \<and> ((cbo = None \<or> (\<exists>e. MigrationParams_of_arguments coerce arguments = Inl e)) \<longrightarrow>
        handle_preview_command chk coerce sf svs decode probe cfg cbo arguments
          = handle_preview_command check_version_compatibility coerce sf svs decode probe cfg cbo arguments)
   \<and> (cbo = Some cb \<and> MigrationParams_of_arguments coerce arguments = Inr params
        \<and> capabilities svs decode probe (version_detector cb) = (caps, det) \<longrightarrow>
        (\<exists>display.
           format_command_display (cb\<lparr>version_detector := det\<rparr>) (build_command sf cb params) True
             = Inr display
           \<and> handle_preview_command chk coerce sf svs decode probe cfg cbo arguments
               = (Inr (join nl (preview_response (build_command_explanation params)
                                  (chk arguments caps (detected_version det)) display
                                  (build_command sf cb params))),
                  Some (cb\<lparr>version_detector := det\<rparr>))
           \<and> handle_preview_command check_version_compatibility coerce sf svs decode probe cfg cbo arguments
               = (Inr (join nl (preview_response (build_command_explanation params)
                                  (check_version_compatibility arguments caps (detected_version det))
                                  display (build_command sf cb params))),
                  Some (cb\<lparr>version_detector := det\<rparr>))))"
proof (intro conjI impI)
  show "snd (handle_preview_command chk coerce sf svs decode probe cfg cbo arguments)
     = snd (handle_preview_command check_version_compatibility coerce sf svs decode probe cfg cbo arguments)"
  proof (cases cbo)
    case None
    then show ?thesis by (simp add: handle_preview_command_def)
  next
    case (Some cb0)
    show ?thesis
    proof (cases "MigrationParams_of_arguments coerce arguments")
      case (Inl e)
      then show ?thesis using preview_invalid [of cbo coerce arguments chk] by metis
    next
      case (Inr p0)
      obtain caps0 det0 where c: "capabilities svs decode probe (version_detector cb0) = (caps0, det0)"
        by (cases "capabilities svs decode probe (version_detector cb0)")
      obtain d0 where "format_command_display (cb0\<lparr>version_detector := det0\<rparr>)
                         (build_command sf cb0 p0) True = Inr d0"
        using format_command_display_ok [OF build_command_not_empty] by blast
      then show ?thesis
        using preview_valid [OF Inr c] Some by simp
    qed
  qed
next
  assume "cbo = None \<or> (\<exists>e. MigrationParams_of_arguments coerce arguments = Inl e)"
  then show "handle_preview_command chk coerce sf svs decode probe cfg cbo arguments
          = handle_preview_command check_version_compatibility coerce sf svs decode probe cfg cbo arguments"
    by (rule preview_invalid)
next
  assume a: "cbo = Some cb \<and> MigrationParams_of_arguments coerce arguments = Inr params
        \<and> capabilities svs decode probe (version_detector cb) = (caps, det)"
  obtain display where d: "format_command_display (cb\<lparr>version_detector := det\<rparr>)
                         (build_command sf cb params) True = Inr display"
    using format_command_display_ok [OF build_command_not_empty] by blast
  from a have p: "MigrationParams_of_arguments coerce arguments = Inr params"
    and c: "capabilities svs decode probe (version_detector cb) = (caps, det)" and s: "cbo = Some cb"
    by simp_all
  show "\<exists>display.
           format_command_display (cb\<lparr>version_detector := det\<rparr>) (build_command sf cb params) True
             = Inr display
           \<and> handle_preview_command chk coerce sf svs decode probe cfg cbo arguments
               = (Inr (join nl (preview_response (build_command_explanation params)
                                  (chk arguments caps (detected_version det)) display
                                  (build_command sf cb params))),
                  Some (cb\<lparr>version_detector := det\<rparr>))
           \<and> handle_preview_command check_version_compatibility coerce sf svs decode probe cfg cbo arguments
               = (Inr (join nl (preview_response (build_command_explanation params)
                                  (check_version_compatibility arguments caps (detected_version det))
                                  display (build_command sf cb params))),
                  Some (cb\<lparr>version_detector := det\<rparr>))"
    unfolding s using d preview_valid [OF p c d] by blast
qed

theorem C3_check_is_advisory_witness:
  "MigrationParams_of_arguments
     (\<lambda>a. Inr ((required_only ''auth.json'' ''s'' ''d1'' ''t'' ''d2'' ''m'' :: string MigrationParams)
                 \<lparr>task_list := Some [''translate'']\<rparr>))
     [(''task_list'', JArr [JStr ''translate''])]
     = Inr ((required_only ''auth.json'' ''s'' ''d1'' ''t'' ''d2'' ''m'')\<lparr>task_list := Some [''translate'']\<rparr>)
   \<and> check_version_compatibility [(''task_list'', JArr [JStr ''translate'' :: string json])]
         empty_capabilities None
       = [''Task '' @ sq @ ''translate'' @ sq
            @ '' is not supported by the installed MigratorXpress (version not detected)'']
   \<and> (\<exists>display.
         handle_preview_command (\<lambda>a c d. [])
           (\<lambda>a. Inr ((required_only ''auth.json'' ''s'' ''d1'' ''t'' ''d2'' ''m'' :: string MigrationParams)
                       \<lparr>task_list := Some [''translate'']\<rparr>))
           id [] ascii_text TimeoutExpired
           \<lparr>MIGRATORXPRESS_PATH = ''MigratorXpress'', MIGRATORXPRESS_TIMEOUT = 3600,
            MIGRATORXPRESS_LOG_DIR = ''logs''\<rparr>
           (Some (undetected_builder ''MigratorXpress''))
           [(''task_list'', JArr [JStr ''translate''])]
         = (Inr (join nl (preview_response
                   (build_command_explanation
                      ((required_only ''auth.json'' ''s'' ''d1'' ''t'' ''d2'' ''m'' :: string MigrationParams)
                         \<lparr>task_list := Some [''translate'']\<rparr>))
                   [] display
                   [''MigratorXpress'', ''-a'', ''auth.json'', ''--source_db_auth_id'', ''s'',
                    ''--source_db_name'', ''d1'', ''--target_db_auth_id'', ''t'',
                    ''--target_db_name'', ''d2'', ''--migration_db_auth_id'', ''m'',
                    ''--task_list'', ''translate''])),
            Some (undetected_builder ''MigratorXpress''))
       \<and> handle_preview_command check_version_compatibility
           (\<lambda>a. Inr ((required_only ''auth.json'' ''s'' ''d1'' ''t'' ''d2'' ''m'' :: string MigrationParams)
                       \<lparr>task_list := Some [''translate'']\<rparr>))
           id [] ascii_text TimeoutExpired
           \<lparr>MIGRATORXPRESS_PATH = ''MigratorXpress'', MIGRATORXPRESS_TIMEOUT = 3600,
            MIGRATORXPRESS_LOG_DIR = ''logs''\<rparr>
           (Some (undetected_builder ''MigratorXpress''))
           [(''task_list'', JArr [JStr ''translate''])]
         = (Inr (join nl (preview_response
                   (build_command_explanation
                      ((required_only ''auth.json'' ''s'' ''d1'' ''t'' ''d2'' ''m'' :: string MigrationParams)
                         \<lparr>task_list := Some [''translate'']\<rparr>))
                   [''Task '' @ sq @ ''translate'' @ sq
                      @ '' is not supported by the installed MigratorXpress (version not detected)'']
                   display
                   [''MigratorXpress'', ''-a'', ''auth.json'', ''--source_db_auth_id'', ''s'',
                    ''--source_db_name'', ''d1'', ''--target_db_auth_id'', ''t'',
                    ''--target_db_name'', ''d2'', ''--migration_db_auth_id'', ''m'',
                    ''--task_list'', ''translate''])),
            Some (undetected_builder ''MigratorXpress'')))"
proof -
  let ?p = "(required_only ''auth.json'' ''s'' ''d1'' ''t'' ''d2'' ''m'' :: string MigrationParams)
              \<lparr>task_list := Some [''translate'']\<rparr>"
  let ?coerce = "\<lambda>a :: string arguments. (Inr ?p :: (string list \<times> string) list + string MigrationParams)"
  let ?args = "[(''task_list'', JArr [JStr ''translate''])] :: string arguments"
  let ?cb = "undetected_builder ''MigratorXpress''"
  let ?cfg = "\<lparr>MIGRATORXPRESS_PATH = ''MigratorXpress'', MIGRATORXPRESS_TIMEOUT = 3600,
               MIGRATORXPRESS_LOG_DIR = ''logs''\<rparr>"
  have v: "validate ?p = Inr ?p"
    by (simp add: validate_def validate_task_list_values_def validate_string_booleans_def
                  string_boolean_check_def validate_license_mutual_exclusivity_def required_only_def
                  valid_tasks_def TaskType_members_def)
  then have m: "MigrationParams_of_arguments ?coerce ?args = Inr ?p"
    by (simp add: MigrationParams_of_arguments_def)
  have c: "capabilities [] ascii_text TimeoutExpired (version_detector ?cb)
             = (empty_capabilities, version_detector ?cb)"
    by (simp add: capabilities_def undetected_builder_def)
  have w: "check_version_compatibility ?args empty_capabilities None
             = [''Task '' @ sq @ ''translate'' @ sq
                  @ '' is not supported by the installed MigratorXpress (version not detected)'']"
    by (simp add: check_version_compatibility_def not_known_def not_supported_def dict_get_def
                  empty_capabilities_def installed_label_def)
  have b: "build_command id ?cb ?p
             = [''MigratorXpress'', ''-a'', ''auth.json'', ''--source_db_auth_id'', ''s'',
                ''--source_db_name'', ''d1'', ''--target_db_auth_id'', ''t'',
                ''--target_db_name'', ''d2'', ''--migration_db_auth_id'', ''m'',
                ''--task_list'', ''translate'']"
    by (simp add: build_command_def required_only_def if_truthy_list_def)
  have d: "detected_version (version_detector ?cb) = None"
    and u: "?cb\<lparr>version_detector := version_detector ?cb\<rparr> = ?cb"
    by (simp_all add: undetected_builder_def)
  from C3_check_is_advisory
         [where chk = "\<lambda>a c d. []" and coerce = ?coerce and sf = id and svs = "[]"
            and decode = ascii_text and probe = TimeoutExpired and cfg = ?cfg and cbo = "Some ?cb" and arguments = ?args
            and cb = ?cb and params = ?p and caps = empty_capabilities
            and det = "version_detector ?cb"]
       m c
  obtain display where
    "handle_preview_command (\<lambda>a c d. []) ?coerce id [] ascii_text TimeoutExpired ?cfg (Some ?cb) ?args
       = (Inr (join nl (preview_response (build_command_explanation ?p) [] display
                          (build_command id ?cb ?p))),
          Some (?cb\<lparr>version_detector := version_detector ?cb\<rparr>))"
    "handle_preview_command check_version_compatibility ?coerce id [] ascii_text TimeoutExpired ?cfg
         (Some ?cb) ?args
       = (Inr (join nl (preview_response (build_command_explanation ?p)
                          (check_version_compatibility ?args empty_capabilities
                             (detected_version (version_detector ?cb)))
                          display (build_command id ?cb ?p))),
          Some (?cb\<lparr>version_detector := version_detector ?cb\<rparr>))"
    by blast
  then show ?thesis
    unfolding b d u w using m w by blast
qed

end
